theory Spec2Isabelle
  imports Complex_Main
begin

section \<open>Python dictionaries\<close>

text \<open>
  A \<open>dict\<close> keeps its keys in insertion order, and the code relies on that order
  (\<open>min\<close> over a dict, \<open>store.plans.values()\<close>), so a dict is an association list
  with distinct keys. Assigning to a key that is present replaces the value in place;
  assigning to a new key appends.
\<close>

type_synonym ('k, 'v) dict = "('k \<times> 'v) list"

fun dict_set :: "('k, 'v) dict \<Rightarrow> 'k \<Rightarrow> 'v \<Rightarrow> ('k, 'v) dict" where
  "dict_set [] k v = [(k, v)]"
| "dict_set ((k', v') # rest) k v =
     (if k' = k then (k', v) # rest else (k', v') # dict_set rest k v)"

definition dict_get :: "('k, 'v) dict \<Rightarrow> 'k \<Rightarrow> 'v option" where
  "dict_get d k = map_of d k"

definition dict_values :: "('k, 'v) dict \<Rightarrow> 'v list" where
  "dict_values d = map snd d"

section \<open>Numbers\<close>

text \<open>
  The program computes with Python floats and numpy \<open>float64\<close> arrays. They are modelled
  as real numbers and lists of reals: rounding, overflow and NaN are left out. The one
  non-finite value the code produces on purpose, \<open>np.inf\<close> for an undefined error
  metric, is kept as a value of its own.
\<close>

datatype xreal = Fin real | PosInf

fun xless :: "xreal \<Rightarrow> xreal \<Rightarrow> bool" where
  "xless (Fin a) (Fin b) = (a < b)"
| "xless (Fin a) PosInf = True"
| "xless PosInf _ = False"

text \<open>
  \<open>np.linspace(start, stop, num, endpoint)\<close>: \<open>num\<close> evenly spaced samples, the last
  one equal to \<open>stop\<close> when \<open>endpoint\<close> holds and more than one sample is asked for.
\<close>

definition linspace :: "real \<Rightarrow> real \<Rightarrow> nat \<Rightarrow> bool \<Rightarrow> real list" where
  "linspace start stop num endpoint =
     (let dv = (if endpoint then num - 1 else num)
      in map (\<lambda>i. if dv = 0 then start else start + real i * ((stop - start) / real dv))
           [0..<num])"

section \<open>Forecast strategies (ml/forecasting.py)\<close>

definition generate_stub_forecast :: "real \<Rightarrow> int \<Rightarrow> real list" where
  "generate_stub_forecast base horizon =
     (if horizon \<le> 0 then []
      else
        let n = nat horizon;
            steps = linspace 0 (2.5 * pi) n False;
            seasonal = map (\<lambda>s. 0.12 * sin s) steps;
            trend = linspace (- 0.08) 0.08 n True;
            raw = map (\<lambda>(s, t). base * (1 + s + t)) (zip seasonal trend);
            noise = map (\<lambda>s. 0.05 * base * sin (s * 1.7)) steps;
            vals = map (\<lambda>(r, z). r + z) (zip raw noise)
        in map (\<lambda>v. max v 0) vals)"

text \<open>
  A \<open>pd.Series\<close> of daily quantities indexed by date: the list of its (date, value)
  entries in index order. A date is the number of its day (Python's \<open>date.toordinal\<close>).
\<close>

type_synonym series = "(int \<times> real) list"

definition series_values :: "series \<Rightarrow> real list" where
  "series_values s = map snd s"

definition series_index :: "series \<Rightarrow> int list" where
  "series_index s = map fst s"

text \<open>The expression \<open>float(series.mean()) if len(series) > 0 else 100.0\<close>.\<close>

definition stub_base :: "series \<Rightarrow> real" where
  "stub_base s =
     (if length s > 0 then sum_list (series_values s) / real (length s) else 100.0)"

text \<open>
  Both metrics are called on a validation window and a prediction of the same length,
  so the boolean mask of the source selects the same positions of both arrays.
\<close>

definition compute_mape :: "real list \<Rightarrow> real list \<Rightarrow> xreal" where
  "compute_mape y_true y_pred =
     (let masked = filter (\<lambda>(t, p). t > 0) (zip y_true y_pred)
      in if masked = [] then PosInf
         else Fin (sum_list (map (\<lambda>(t, p). \<bar>(t - p) / t\<bar>) masked) / real (length masked)))"

definition compute_mae :: "real list \<Rightarrow> real list \<Rightarrow> xreal" where
  "compute_mae y_true y_pred =
     (if length y_true = 0 \<or> length y_pred = 0 then PosInf
      else Fin (sum_list (map (\<lambda>(t, p). \<bar>t - p\<bar>) (zip y_true y_pred))
                 / real (length (zip y_true y_pred))))"

text \<open>
  The three fitted models come from statsmodels, prophet and xgboost, which are not part
  of the repository; they are parameters of the model. Each call either raises, which
  the \<open>try\<close>/\<open>except\<close> of its wrapper turns into \<open>None\<close>, or gives the forecast:
  \<^item> \<open>arima_fit values steps\<close> stands for \<open>ARIMA(values, order=(1,1,1)).fit().forecast(steps)\<close>,
    whose result has \<open>steps\<close> entries: entry \<open>i\<close> of the result is \<open>fc i\<close>;
  \<^item> \<open>prophet_fit series dates\<close> stands for fitting on the (date, value) pairs and
    predicting \<open>yhat\<close> at \<open>dates\<close>, one entry per date: entry \<open>i\<close> is \<open>fc i\<close>;
  \<^item> \<open>xgb_fit X y\<close> stands for \<open>XGBRegressor(...).fit(X, y)\<close>; the fitted model maps
    one lag value to one prediction (\<open>model.predict\<close>), or raises.
\<close>

record forecast_libs =
  arima_fit :: "real list \<Rightarrow> nat \<Rightarrow> (nat \<Rightarrow> real) option"
  prophet_fit :: "series \<Rightarrow> int list \<Rightarrow> (nat \<Rightarrow> real) option"
  xgb_fit :: "real list list \<Rightarrow> real list \<Rightarrow> (real \<Rightarrow> real option) option"

definition forecast_arima :: "forecast_libs \<Rightarrow> series \<Rightarrow> int \<Rightarrow> real list option" where
  "forecast_arima libs s horizon =
     (if length s < 4 \<or> horizon \<le> 0 then None
      else case arima_fit libs (series_values s) (nat horizon) of
             None \<Rightarrow> None
           | Some fc \<Rightarrow> Some (map (\<lambda>i. max (fc i) 0) [0..<nat horizon]))"

definition forecast_prophet :: "forecast_libs \<Rightarrow> series \<Rightarrow> int list \<Rightarrow> real list option" where
  "forecast_prophet libs s horizon_dates =
     (if length s < 4 \<or> length horizon_dates = 0 then None
      else case prophet_fit libs s horizon_dates of
             None \<Rightarrow> None
           | Some fc \<Rightarrow> Some (map (\<lambda>i. max (fc i) 0) [0..<length horizon_dates]))"

text \<open>The recursive one-step rollout: each floored prediction is the next input.\<close>

fun xgb_rollout :: "(real \<Rightarrow> real option) \<Rightarrow> real \<Rightarrow> nat \<Rightarrow> real list option" where
  "xgb_rollout predict history 0 = Some []"
| "xgb_rollout predict history (Suc n) =
     (case predict history of
        None \<Rightarrow> None
      | Some p \<Rightarrow>
          (let pred = max p 0
           in case xgb_rollout predict pred n of
                None \<Rightarrow> None
              | Some rest \<Rightarrow> Some (pred # rest)))"

definition forecast_xgb :: "forecast_libs \<Rightarrow> series \<Rightarrow> int \<Rightarrow> real list option" where
  "forecast_xgb libs s horizon =
     (if length s < 6 \<or> horizon \<le> 0 then None
      else
        let vals = series_values s;
            X = map (\<lambda>i. [vals ! (i - 1)]) [1..<length vals];
            y = map (\<lambda>i. vals ! i) [1..<length vals]
        in case xgb_fit libs X y of
             None \<Rightarrow> None
           | Some predict \<Rightarrow> xgb_rollout predict (last vals) (nat horizon))"

section \<open>Model selector (ml/forecasting.py)\<close>

text \<open>
  \<open>min(d, key=d.get)\<close>: one pass over the keys in insertion order that replaces the
  current best only by a strictly smaller score, so the first of several equal scores
  stays.
\<close>

fun py_min_from :: "string \<times> xreal \<Rightarrow> (string, xreal) dict \<Rightarrow> string \<times> xreal" where
  "py_min_from best [] = best"
| "py_min_from best (c # cs) = py_min_from (if xless (snd c) (snd best) then c else best) cs"

definition forecast_with_name ::
  "forecast_libs \<Rightarrow> series \<Rightarrow> int list \<Rightarrow> string \<Rightarrow> real list option \<times> string" where
  "forecast_with_name libs s horizon_dates name =
     (let horizon = int (length horizon_dates)
      in if name = ''arima'' then (forecast_arima libs s horizon, ''arima'')
         else if name = ''prophet'' then (forecast_prophet libs s horizon_dates, ''prophet'')
         else if name = ''xgboost'' then (forecast_xgb libs s horizon, ''xgboost'')
         else if name = ''stub'' then
           (Some (generate_stub_forecast (stub_base s) horizon), ''stub'')
         else (None, ''stub''))"

text \<open>
  The validation part of \<open>_select_model_and_forecast\<close> (its lines up to the xgboost
  block). It runs only on a history of at least four points, where the training prefix
  is at least as long as the validation window, so \<open>train.index[-n_val]\<close> exists.
\<close>

definition validation_metrics :: "forecast_libs \<Rightarrow> series \<Rightarrow> (string, xreal) dict" where
  "validation_metrics libs s =
     (let n_val = min 3 (max 1 (length s div 4));
          train = take (length s - n_val) s;
          val_true = series_values (drop (length s - n_val) s);
          metrics = [];
          metrics =
            (case forecast_arima libs train (int n_val) of
               None \<Rightarrow> metrics
             | Some arima_val \<Rightarrow>
                 dict_set (dict_set metrics ''arima_mape'' (compute_mape val_true arima_val))
                   ''arima_mae'' (compute_mae val_true arima_val));
          val_dates = map (\<lambda>i. series_index train ! (length train - n_val) + int i) [0..<n_val];
          metrics =
            (case forecast_prophet libs train val_dates of
               None \<Rightarrow> metrics
             | Some prophet_val \<Rightarrow>
                 dict_set (dict_set metrics ''prophet_mape'' (compute_mape val_true prophet_val))
                   ''prophet_mae'' (compute_mae val_true prophet_val));
          metrics =
            (case forecast_xgb libs train (int n_val) of
               None \<Rightarrow> metrics
             | Some xgb_val \<Rightarrow>
                 dict_set (dict_set metrics ''xgb_mape'' (compute_mape val_true xgb_val))
                   ''xgb_mae'' (compute_mae val_true xgb_val))
      in metrics)"

definition score_candidates_of :: "(string, xreal) dict \<Rightarrow> (string, xreal) dict" where
  "score_candidates_of metrics =
     (let sc = [];
          sc = (case dict_get metrics ''arima_mape'' of
                  None \<Rightarrow> sc | Some v \<Rightarrow> dict_set sc ''arima'' v);
          sc = (case dict_get metrics ''prophet_mape'' of
                  None \<Rightarrow> sc | Some v \<Rightarrow> dict_set sc ''prophet'' v);
          sc = (case dict_get metrics ''xgb_mape'' of
                  None \<Rightarrow> sc | Some v \<Rightarrow> dict_set sc ''xgboost'' v)
      in sc)"

definition known_models :: "string list" where
  "known_models = [''arima'', ''prophet'', ''xgboost'', ''stub'']"

definition select_model_and_forecast ::
  "forecast_libs \<Rightarrow> series \<Rightarrow> int list \<Rightarrow> string option
     \<Rightarrow> real list \<times> string \<times> (string, xreal) dict" where
  "select_model_and_forecast libs s horizon_dates forced_model =
     (let horizon = int (length horizon_dates);
          stub = generate_stub_forecast (stub_base s) horizon
      in if length s < 4 \<or> horizon \<le> 0 then (stub, ''stub'', [])
         else
           let metrics = validation_metrics libs s
           in if (case forced_model of None \<Rightarrow> False | Some f \<Rightarrow> f \<in> set known_models)
              then
                (case forecast_with_name libs s horizon_dates (the forced_model) of
                   (None, chosen) \<Rightarrow> (stub, ''stub'', metrics)
                 | (Some final_fc, chosen) \<Rightarrow> (final_fc, chosen, metrics))
              else if metrics = [] then (stub, ''stub'', [])
              else
                (case score_candidates_of metrics of
                   [] \<Rightarrow> (stub, ''stub'', metrics)
                 | c # cs \<Rightarrow>
                     (let best_model = fst (py_min_from c cs)
                      in case forecast_with_name libs s horizon_dates best_model of
                           (None, chosen) \<Rightarrow> (stub, ''stub'', metrics)
                         | (Some final_fc, chosen) \<Rightarrow> (final_fc, chosen, metrics))))"

section \<open>Forecast orchestrator (ml/forecasting.py)\<close>

datatype TimeGranularity = day | week | month

record ForecastRequest =
  sku_list :: "string list"
  start_date :: int
  end_date :: int
  granularity :: TimeGranularity
  location :: "string option"
  forced_model :: "string option"

record ForecastPoint =
  fp_sku :: string
  fp_date :: int
  fp_mean :: real
  fp_q10 :: real
  fp_q50 :: real
  fp_q90 :: real

record ForecastMetadata =
  model_name :: string
  model_version :: string
  components :: "string list"
  md_notes :: "string option"
  per_sku_model :: "(string, string) dict option"

text \<open>
  A row of the merged sales table that \<open>load_sales_with_signals\<close> reads from disk; the
  loader always provides the four columns used here. The table is a parameter.
\<close>

record sales_row =
  row_sku :: string
  row_location :: string
  row_date :: int
  row_quantity :: real

definition prepare_history :: "sales_row list \<Rightarrow> string \<Rightarrow> string option \<Rightarrow> series" where
  "prepare_history table sku loc =
     (let df = filter (\<lambda>r. row_sku r = sku) table;
          df = (case loc of
                  None \<Rightarrow> df
                | Some l \<Rightarrow>
                    if (\<exists>r \<in> set df. row_location r = l)
                    then filter (\<lambda>r. row_location r = l) df else df)
      in if df = [] then []
         else map (\<lambda>d. (d, sum_list (map row_quantity (filter (\<lambda>r. row_date r = d) df))))
                (sort (remdups (map row_date df))))"

text \<open>
  \<open>pd.date_range(start, end, freq)\<close>: the dates of the closed range that the frequency
  keeps. \<open>"D"\<close> keeps every day; \<open>"W"\<close> and \<open>"M"\<close> keep only the anchor dates of the
  calendar (week ends, month ends), which the predicate \<open>anchor\<close> supplies.
\<close>

definition date_range ::
  "(TimeGranularity \<Rightarrow> int \<Rightarrow> bool) \<Rightarrow> int \<Rightarrow> int \<Rightarrow> TimeGranularity \<Rightarrow> int list" where
  "date_range anchor s e g = (if g = day then [s..e] else filter (anchor g) [s..e])"

record forecast_env =
  env_libs :: forecast_libs
  sales_table :: "sales_row list"
  calendar :: "TimeGranularity \<Rightarrow> int \<Rightarrow> bool"

text \<open>The body of the loop over \<open>zip(date_index, mean_values)\<close>.\<close>

definition quantile_points :: "string \<Rightarrow> int list \<Rightarrow> real list \<Rightarrow> ForecastPoint list" where
  "quantile_points sku date_index mean_values =
     map (\<lambda>(ts, m). \<lparr>fp_sku = sku, fp_date = ts, fp_mean = m,
                        fp_q10 = m * 0.8, fp_q50 = m, fp_q90 = m * 1.2\<rparr>)
       (zip date_index mean_values)"

definition chosen_model_code :: "string \<Rightarrow> real" where
  "chosen_model_code chosen =
     (case dict_get [(''stub'', 0.0), (''arima'', 1.0), (''prophet'', 2.0), (''xgboost'', 3.0)] chosen of
        None \<Rightarrow> - 1.0
      | Some v \<Rightarrow> v)"

text \<open>
  The loop over \<open>request.sku_list\<close>. Its body first obtains the mean forecast, the
  chosen model and the metrics of the SKU (the \<open>if history.empty\<close> block), then
  updates the three accumulators.
\<close>

definition sku_forecast ::
  "forecast_env \<Rightarrow> ForecastRequest \<Rightarrow> int list \<Rightarrow> string
     \<Rightarrow> real list \<times> string \<times> (string, xreal) dict" where
  "sku_forecast env request date_index sku =
     (let history = prepare_history (sales_table env) sku (location request)
      in if history = []
         then (generate_stub_forecast 100.0 (int (length date_index)), ''stub'', [])
         else select_model_and_forecast (env_libs env) history date_index (forced_model request))"

definition forecast_one_sku ::
  "forecast_env \<Rightarrow> ForecastRequest \<Rightarrow> int list
     \<Rightarrow> ForecastPoint list \<times> (string, xreal) dict \<times> (string, string) dict
     \<Rightarrow> string
     \<Rightarrow> ForecastPoint list \<times> (string, xreal) dict \<times> (string, string) dict" where
  "forecast_one_sku env request date_index st sku =
     (case st of (points, global_metrics, psm) \<Rightarrow>
        (case sku_forecast env request date_index sku of (mean_values, chosen_model, metrics) \<Rightarrow>
           let psm = dict_set psm sku chosen_model;
               global_metrics =
                 foldl (\<lambda>gm (key, v). dict_set gm (sku @ ''.'' @ key) v) global_metrics metrics;
               points = points @ quantile_points sku date_index mean_values;
               global_metrics =
                 dict_set global_metrics (sku @ ''.chosen_model'')
                   (Fin (chosen_model_code chosen_model))
           in (points, global_metrics, psm)))"

definition generate_ensemble_forecast ::
  "forecast_env \<Rightarrow> ForecastRequest
     \<Rightarrow> ForecastPoint list \<times> ForecastMetadata \<times> (string, xreal) dict" where
  "generate_ensemble_forecast env request =
     (let date_index =
            date_range (calendar env) (start_date request) (end_date request) (granularity request);
          (points, global_metrics, psm) =
            foldl (forecast_one_sku env request date_index) ([], [], []) (sku_list request);
          metadata =
            \<lparr>model_name = ''arima_prophet_xgb_ensemble'',
             model_version = ''1.0.0'',
             components = [''arima'', ''prophet'', ''xgboost''],
             md_notes = Some ''Per-SKU model selection with ARIMA, Prophet, and XGBoost; quantiles approximated from mean.'',
             per_sku_model = Some psm\<rparr>
      in (points, metadata, global_metrics))"

section \<open>Supply planner (ml/inventory.py, ml/supply_planning.py)\<close>

record InventoryConstraints =
  target_service_level :: real
  max_days_of_cover :: int
  min_days_of_cover :: int
  lead_time_days :: int

record RecommendedOrder =
  ro_sku :: string
  ro_location :: "string option"
  order_date :: int
  ro_quantity :: real
  order_type :: string

record ProductionRecommendation =
  pr_sku :: string
  line_id :: "string option"
  production_date :: int
  pr_quantity :: real

record PlanKPI =
  kpi_name :: string
  kpi_value :: real
  kpi_unit :: "string option"

text \<open>
  \<open>demand_by_sku\<close> is a \<open>defaultdict(float)\<close>: adding to a missing key starts from
  \<open>0.0\<close> and appends the key.
\<close>

definition summarize_step ::
  "(string, real) dict \<times> int option \<times> int option \<Rightarrow> ForecastPoint
     \<Rightarrow> (string, real) dict \<times> int option \<times> int option" where
  "summarize_step st p =
     (case st of (demand_by_sku, min_date, max_date) \<Rightarrow>
        let cur = (case dict_get demand_by_sku (fp_sku p) of None \<Rightarrow> 0.0 | Some v \<Rightarrow> v);
            demand_by_sku = dict_set demand_by_sku (fp_sku p) (cur + fp_mean p);
            min_date = (case min_date of
                          None \<Rightarrow> Some (fp_date p)
                        | Some m \<Rightarrow> if fp_date p < m then Some (fp_date p) else Some m);
            max_date = (case max_date of
                          None \<Rightarrow> Some (fp_date p)
                        | Some m \<Rightarrow> if fp_date p > m then Some (fp_date p) else Some m)
        in (demand_by_sku, min_date, max_date))"

definition summarize_demand ::
  "ForecastPoint list \<Rightarrow> (string, real) dict \<times> int option \<times> int option" where
  "summarize_demand points = foldl summarize_step ([], None, None) points"

definition compute_safety_stock_for_sku :: "real \<Rightarrow> int \<Rightarrow> InventoryConstraints \<Rightarrow> real" where
  "compute_safety_stock_for_sku total_demand horizon_days constraints =
     (if horizon_days \<le> 0 then 0.0
      else
        let avg_daily = total_demand / real_of_int horizon_days;
            z_value = (if target_service_level constraints \<ge> 0.95 then 1.65 else 1.0);
            safety_stock = avg_daily * real_of_int (lead_time_days constraints) * z_value
        in safety_stock)"

text \<open>One pass of the loop over \<open>demand_by_sku.items()\<close>.\<close>

definition plan_step ::
  "InventoryConstraints \<Rightarrow> string option \<Rightarrow> int \<Rightarrow> int
     \<Rightarrow> RecommendedOrder list \<times> ProductionRecommendation list \<times> real
     \<Rightarrow> string \<times> real
     \<Rightarrow> RecommendedOrder list \<times> ProductionRecommendation list \<times> real" where
  "plan_step constraints loc min_date horizon_days st item =
     (case (st, item) of ((orders, production, total_volume), (sku, total_demand)) \<Rightarrow>
        let safety_stock = compute_safety_stock_for_sku total_demand horizon_days constraints;
            total_required = total_demand + safety_stock;
            purchase_quantity = total_required * 0.4;
            production_quantity = total_required * 0.6;
            orders =
              (if purchase_quantity > 0.0
               then orders @ [\<lparr>ro_sku = sku, ro_location = loc, order_date = min_date,
                                ro_quantity = purchase_quantity, order_type = ''purchase''\<rparr>]
               else orders);
            production =
              (if production_quantity > 0.0
               then production @ [\<lparr>pr_sku = sku, line_id = Some ''LINE-1'',
                                    production_date = min_date,
                                    pr_quantity = production_quantity\<rparr>]
               else production);
            total_volume = total_volume + total_required
        in (orders, production, total_volume))"

definition generate_supply_plan ::
  "ForecastPoint list \<Rightarrow> InventoryConstraints \<Rightarrow> string option
     \<Rightarrow> RecommendedOrder list \<times> ProductionRecommendation list \<times> PlanKPI list" where
  "generate_supply_plan points constraints loc =
     (case summarize_demand points of (demand_by_sku, min_date_opt, max_date_opt) \<Rightarrow>
        (case (min_date_opt, max_date_opt) of
           (Some min_date, Some max_date) \<Rightarrow>
             (let horizon_days = (max_date - min_date) + 1;
                  (orders, production, total_volume) =
                    foldl (plan_step constraints loc min_date horizon_days) ([], [], 0.0) demand_by_sku;
                  kpis = [\<lparr>kpi_name = ''Total Volume'', kpi_value = total_volume,
                           kpi_unit = Some ''units''\<rparr>,
                          \<lparr>kpi_name = ''Target Service Level'',
                           kpi_value = target_service_level constraints,
                           kpi_unit = Some []\<rparr>]
              in (orders, production, kpis))
         | _ \<Rightarrow> ([], [], [])))"

section \<open>Scenario engine (ml/scenario.py)\<close>

datatype ScenarioShockType = Demand | Supply | Capacity | Price

record ScenarioShock =
  shock_type :: ScenarioShockType
  shock_sku :: "string option"
  shock_location :: "string option"
  shock_start_date :: int
  shock_end_date :: int
  factor :: real
  shock_delta :: real

record ScenarioRequest =
  sq_forecast_id :: string
  sq_plan_id :: "string option"
  sq_name :: "string option"
  shocks :: "ScenarioShock list"

record ScenarioKPI =
  sk_name :: string
  sk_base :: real
  sk_scenario :: real
  sk_delta :: real
  sk_unit :: "string option"

record PlanResponse =
  pl_plan_id :: string
  pl_forecast_id :: string
  pl_orders :: "RecommendedOrder list"
  pl_production :: "ProductionRecommendation list"
  pl_kpis :: "PlanKPI list"

definition compute_scenario_kpis :: "PlanResponse \<Rightarrow> ScenarioRequest \<Rightarrow> ScenarioKPI list" where
  "compute_scenario_kpis plan request =
     (let base_volume = sum_list (map ro_quantity (pl_orders plan))
                        + sum_list (map pr_quantity (pl_production plan));
          demand_factors = map factor (filter (\<lambda>shock. shock_type shock = Demand) (shocks request));
          demand_factor =
            (if demand_factors \<noteq> []
             then sum_list demand_factors / real (length demand_factors)
             else 1.0);
          scenario_volume = base_volume * demand_factor;
          delta_volume = scenario_volume - base_volume
      in [\<lparr>sk_name = ''Total Volume'', sk_base = base_volume, sk_scenario = scenario_volume,
           sk_delta = delta_volume, sk_unit = Some ''units''\<rparr>])"

section \<open>Services and the in-memory store (services/)\<close>

record ForecastResponse =
  fr_forecast_id :: string
  fr_points :: "ForecastPoint list"
  fr_metadata :: ForecastMetadata
  fr_metrics :: "(string, xreal) dict option"

record ScenarioResponse =
  sc_scenario_id :: string
  sc_forecast_id :: string
  sc_plan_id :: "string option"
  sc_name :: "string option"
  sc_kpis :: "ScenarioKPI list"
  sc_narrative :: "string option"

record InMemoryStore =
  forecasts :: "(string, ForecastResponse) dict"
  plans :: "(string, PlanResponse) dict"
  scenarios :: "(string, ScenarioResponse) dict"

text \<open>
  \<open>HTTPException(status_code, detail)\<close>: 404 is the NotFound failure, 400 with the detail
  of \<open>run_scenario\<close> is the NoBasePlan failure.
\<close>

datatype HTTPException = HTTPException (status_code: nat) (detail: string)

datatype PlanObjective = service_level | margin | cost

record PlanGenerateRequest =
  pg_forecast_id :: string
  pg_objective :: PlanObjective
  pg_constraints :: InventoryConstraints
  pg_location :: "string option"

text \<open>
  The services read and write the module-level store and draw identifiers from
  \<open>uuid.uuid4()\<close>: the store is passed in and returned, the fresh identifier is an
  argument.
\<close>

definition generate_plan ::
  "InMemoryStore \<Rightarrow> string \<Rightarrow> PlanGenerateRequest
     \<Rightarrow> HTTPException + (PlanResponse \<times> InMemoryStore)" where
  "generate_plan store new_id payload =
     (case dict_get (forecasts store) (pg_forecast_id payload) of
        None \<Rightarrow> Inl (HTTPException 404 ''Forecast not found'')
      | Some forecast \<Rightarrow>
          (case generate_supply_plan (fr_points forecast) (pg_constraints payload) (pg_location payload) of
             (orders, production, kpis) \<Rightarrow>
               let response = \<lparr>pl_plan_id = new_id, pl_forecast_id = pg_forecast_id payload,
                                pl_orders = orders, pl_production = production, pl_kpis = kpis\<rparr>
               in Inr (response, store\<lparr>plans := dict_set (plans store) new_id response\<rparr>)))"

text \<open>
  The first part of \<open>run_scenario\<close>, up to the second \<open>raise\<close>. The test
  \<open>if payload.plan_id\<close> is Python truthiness: \<open>None\<close> and the empty string both take
  the \<open>else\<close> branch.
\<close>

definition resolve_base_plan ::
  "InMemoryStore \<Rightarrow> ScenarioRequest \<Rightarrow> HTTPException + PlanResponse" where
  "resolve_base_plan store payload =
     (if (case sq_plan_id payload of None \<Rightarrow> False | Some pid \<Rightarrow> pid \<noteq> [])
      then
        (case dict_get (plans store) (the (sq_plan_id payload)) of
           None \<Rightarrow> Inl (HTTPException 404 ''Plan not found'')
         | Some plan \<Rightarrow> Inr plan)
      else
        (case find (\<lambda>candidate. pl_forecast_id candidate = sq_forecast_id payload)
                (dict_values (plans store)) of
           None \<Rightarrow> Inl (HTTPException 400 ''No base plan available for scenario'')
         | Some plan \<Rightarrow> Inr plan))"

text \<open>
  The format specifications \<open>:.0f\<close>, \<open>:+.1f\<close> and \<open>:.2f\<close> of the narrative are
  parameters: the text they produce is no part of any property below.
\<close>

record float_formats =
  fmt_0f :: "real \<Rightarrow> string"
  fmt_signed_1f :: "real \<Rightarrow> string"
  fmt_2f :: "real \<Rightarrow> string"

fun join_with_space :: "string list \<Rightarrow> string" where
  "join_with_space [] = []"
| "join_with_space [x] = x"
| "join_with_space (x # y # ys) = x @ '' '' @ join_with_space (y # ys)"

definition scenario_narrative ::
  "float_formats \<Rightarrow> ScenarioRequest \<Rightarrow> ScenarioKPI list \<Rightarrow> string option" where
  "scenario_narrative fmt payload kpis =
     (let demand_factors = map factor (filter (\<lambda>shock. shock_type shock = Demand) (shocks payload));
          avg_demand_factor =
            (if demand_factors \<noteq> []
             then sum_list demand_factors / real (length demand_factors)
             else 1.0);
          narrative_parts =
            (case find (\<lambda>k. sk_name k = ''Total Volume'') kpis of
               None \<Rightarrow> []
             | Some total_kpi \<Rightarrow>
                 let pct_change = (if sk_base total_kpi \<noteq> 0
                                   then (sk_delta total_kpi / sk_base total_kpi) * 100.0
                                   else 0.0);
                     direction = (if sk_delta total_kpi > 0 then ''increase''
                                  else if sk_delta total_kpi < 0 then ''decrease''
                                  else ''no change'')
                 in [''Total volume '' @ direction @ '' from '' @ fmt_0f fmt (sk_base total_kpi)
                     @ '' to '' @ fmt_0f fmt (sk_scenario total_kpi) @ '' units (''
                     @ fmt_signed_1f fmt pct_change @ ''%).'']);
          narrative_parts =
            (if avg_demand_factor \<noteq> 1.0
             then narrative_parts @ [''Average demand factor applied across shocks: x''
                                     @ fmt_2f fmt avg_demand_factor @ ''.'']
             else narrative_parts)
      in if narrative_parts \<noteq> []
         then
           (let scenario_name = (case sq_name payload of
                                   None \<Rightarrow> ''Scenario''
                                 | Some n \<Rightarrow> if n = [] then ''Scenario'' else n)
            in Some (scenario_name @ '': '' @ join_with_space narrative_parts))
         else None)"

definition run_scenario ::
  "float_formats \<Rightarrow> InMemoryStore \<Rightarrow> string \<Rightarrow> ScenarioRequest
     \<Rightarrow> HTTPException + (ScenarioResponse \<times> InMemoryStore)" where
  "run_scenario fmt store new_id payload =
     (case resolve_base_plan store payload of
        Inl err \<Rightarrow> Inl err
      | Inr plan \<Rightarrow>
          let kpis = compute_scenario_kpis plan payload;
              narrative = scenario_narrative fmt payload kpis;
              response = \<lparr>sc_scenario_id = new_id, sc_forecast_id = sq_forecast_id payload,
                           sc_plan_id = Some (pl_plan_id plan), sc_name = sq_name payload,
                           sc_kpis = kpis, sc_narrative = narrative\<rparr>
          in Inr (response, store\<lparr>scenarios := dict_set (scenarios store) new_id response\<rparr>))"

section \<open>Notions used in the statements\<close>

text \<open>The total mean demand the forecast points carry for one SKU.\<close>

definition sku_demand :: "ForecastPoint list \<Rightarrow> string \<Rightarrow> real" where
  "sku_demand points sku = sum_list (map fp_mean (filter (\<lambda>p. fp_sku p = sku) points))"

text \<open>The value a \<open>defaultdict(float)\<close> holds for a key: \<open>0.0\<close> when the key is missing.\<close>

definition dget0 :: "(string, real) dict \<Rightarrow> string \<Rightarrow> real" where
  "dget0 d k = (case map_of d k of None \<Rightarrow> 0 | Some v \<Rightarrow> v)"

text \<open>
  The quantities of the planner's loop body for one SKU with total demand \<open>td\<close>, and
  the recommendations that pass of the loop appends.
\<close>

definition total_required :: "InventoryConstraints \<Rightarrow> int \<Rightarrow> real \<Rightarrow> real" where
  "total_required c hdays td = td + compute_safety_stock_for_sku td hdays c"

definition orders_for ::
  "InventoryConstraints \<Rightarrow> string option \<Rightarrow> int \<Rightarrow> int \<Rightarrow> string \<times> real \<Rightarrow> RecommendedOrder list" where
  "orders_for c loc mn hdays item =
     (if total_required c hdays (snd item) * 0.4 > 0
      then [\<lparr>ro_sku = fst item, ro_location = loc, order_date = mn,
             ro_quantity = total_required c hdays (snd item) * 0.4, order_type = ''purchase''\<rparr>]
      else [])"

definition production_for ::
  "InventoryConstraints \<Rightarrow> int \<Rightarrow> int \<Rightarrow> string \<times> real \<Rightarrow> ProductionRecommendation list" where
  "production_for c mn hdays item =
     (if total_required c hdays (snd item) * 0.6 > 0
      then [\<lparr>pr_sku = fst item, line_id = Some ''LINE-1'', production_date = mn,
             pr_quantity = total_required c hdays (snd item) * 0.6\<rparr>]
      else [])"

text \<open>
  The validation split of the selector, named: the window size, the training prefix, the
  actual values of the window, and the dates handed to prophet for it. With them, the
  forecast each strategy gives for the validation window and the MAPE of that forecast;
  \<open>None\<close> when the strategy gave no validation forecast.
\<close>

definition n_val_of :: "series \<Rightarrow> nat" where
  "n_val_of s = min 3 (max 1 (length s div 4))"

definition train_of :: "series \<Rightarrow> series" where
  "train_of s = take (length s - n_val_of s) s"

definition val_true_of :: "series \<Rightarrow> real list" where
  "val_true_of s = series_values (drop (length s - n_val_of s) s)"

definition val_dates_of :: "series \<Rightarrow> int list" where
  "val_dates_of s =
     map (\<lambda>i. series_index (train_of s) ! (length (train_of s) - n_val_of s) + int i)
       [0..<n_val_of s]"

definition validation_forecast :: "forecast_libs \<Rightarrow> series \<Rightarrow> string \<Rightarrow> real list option" where
  "validation_forecast L s name =
     (if name = ''arima'' then forecast_arima L (train_of s) (int (n_val_of s))
      else if name = ''prophet'' then forecast_prophet L (train_of s) (val_dates_of s)
      else if name = ''xgboost'' then forecast_xgb L (train_of s) (int (n_val_of s))
      else None)"

definition validation_mape :: "forecast_libs \<Rightarrow> series \<Rightarrow> string \<Rightarrow> xreal option" where
  "validation_mape L s name =
     map_option (compute_mape (val_true_of s)) (validation_forecast L s name)"

text \<open>
  What the selector returns once it has settled on a strategy name: that strategy's
  forecast on the full history, or the stub forecast when the strategy gives none.
\<close>

definition final_or_stub ::
  "forecast_libs \<Rightarrow> series \<Rightarrow> int list \<Rightarrow> string \<Rightarrow> real list \<times> string" where
  "final_or_stub L s horizon_dates name =
     (case fst (forecast_with_name L s horizon_dates name) of
        None \<Rightarrow> (generate_stub_forecast (stub_base s) (int (length horizon_dates)), ''stub'')
      | Some fc \<Rightarrow> (fc, name))"

text \<open>
  The specification's selection rule, written out to be compared with the code: of the
  candidates, listed in priority order, the first whose MAPE no other candidate's MAPE
  is strictly below. The candidates of the code are the strategies that gave a
  validation forecast, in the order arima, prophet, xgboost.
\<close>

definition spec_best_model :: "(string \<times> xreal) list \<Rightarrow> string option" where
  "spec_best_model cands =
     map_option fst (find (\<lambda>c. \<forall>c' \<in> set cands. \<not> xless (snd c') (snd c)) cands)"

definition mape_candidates :: "forecast_libs \<Rightarrow> series \<Rightarrow> (string \<times> xreal) list" where
  "mape_candidates L s =
     List.map_filter (\<lambda>name. map_option (Pair name) (validation_mape L s name))
       [''arima'', ''prophet'', ''xgboost'']"

section \<open>Concrete inputs\<close>

text \<open>
  Two days of forecast for SKU A with mean 10 each and one day for SKU B with mean 0,
  and the default inventory constraints of \<open>models/plan.py\<close>.
\<close>

definition demo_points :: "ForecastPoint list" where
  "demo_points =
     [\<lparr>fp_sku = ''A'', fp_date = 1, fp_mean = 10, fp_q10 = 8, fp_q50 = 10, fp_q90 = 12\<rparr>,
      \<lparr>fp_sku = ''A'', fp_date = 2, fp_mean = 10, fp_q10 = 8, fp_q50 = 10, fp_q90 = 12\<rparr>,
      \<lparr>fp_sku = ''B'', fp_date = 1, fp_mean = 0, fp_q10 = 0, fp_q50 = 0, fp_q90 = 0\<rparr>]"

definition default_constraints :: InventoryConstraints where
  "default_constraints =
     \<lparr>target_service_level = 0.95, max_days_of_cover = 90, min_days_of_cover = 0,
      lead_time_days = 10\<rparr>"

text \<open>A store that holds one forecast with these points, and a plan request for it.\<close>

definition demo_forecast :: ForecastResponse where
  "demo_forecast =
     \<lparr>fr_forecast_id = ''f1'', fr_points = demo_points,
      fr_metadata = \<lparr>model_name = ''arima_prophet_xgb_ensemble'', model_version = ''1.0.0'',
                      components = [''arima'', ''prophet'', ''xgboost''], md_notes = None,
                      per_sku_model = Some [(''A'', ''stub''), (''B'', ''stub'')]\<rparr>,
      fr_metrics = None\<rparr>"

definition demo_store :: InMemoryStore where
  "demo_store = \<lparr>forecasts = [(''f1'', demo_forecast)], plans = [], scenarios = []\<rparr>"

definition demo_plan_request :: PlanGenerateRequest where
  "demo_plan_request =
     \<lparr>pg_forecast_id = ''f1'', pg_objective = service_level,
      pg_constraints = default_constraints, pg_location = None\<rparr>"

definition demo_plan_response :: PlanResponse where
  "demo_plan_response =
     \<lparr>pl_plan_id = ''p1'', pl_forecast_id = ''f1'',
      pl_orders = [\<lparr>ro_sku = ''A'', ro_location = None, order_date = 1, ro_quantity = 74,
                    order_type = ''purchase''\<rparr>],
      pl_production = [\<lparr>pr_sku = ''A'', line_id = Some ''LINE-1'', production_date = 1,
                        pr_quantity = 111\<rparr>],
      pl_kpis = [\<lparr>kpi_name = ''Total Volume'', kpi_value = 185, kpi_unit = Some ''units''\<rparr>,
                 \<lparr>kpi_name = ''Target Service Level'', kpi_value = 0.95, kpi_unit = Some []\<rparr>]\<rparr>"

text \<open>
  The same store after the plan \<open>p1\<close> for forecast \<open>f1\<close> was generated, scenario requests
  against it, and number formats that print nothing.
\<close>

definition demo_store_with_plan :: InMemoryStore where
  "demo_store_with_plan = demo_store\<lparr>plans := [(''p1'', demo_plan_response)]\<rparr>"

definition scenario_request_for :: "string \<Rightarrow> string option \<Rightarrow> ScenarioRequest" where
  "scenario_request_for fid pid =
     \<lparr>sq_forecast_id = fid, sq_plan_id = pid, sq_name = None, shocks = []\<rparr>"

definition plain_formats :: float_formats where
  "plain_formats = \<lparr>fmt_0f = (\<lambda>x. []), fmt_signed_1f = (\<lambda>x. []), fmt_2f = (\<lambda>x. [])\<rparr>"

text \<open>
  Library behaviours and histories for the selector: libraries that always raise; an
  ARIMA fit that raises on every input but a four-point one (it fits the training
  prefix of a five-point history and fails on the full history); an ARIMA fit that
  always succeeds with the constant forecast 1, next to a failing prophet and xgboost.
\<close>

definition no_libs :: forecast_libs where
  "no_libs = \<lparr>arima_fit = (\<lambda>v n. None), prophet_fit = (\<lambda>s d. None), xgb_fit = (\<lambda>X y. None)\<rparr>"

definition arima_only_on_four :: forecast_libs where
  "arima_only_on_four =
     \<lparr>arima_fit = (\<lambda>v n. if length v = 4 then Some (\<lambda>i. 1) else None),
      prophet_fit = (\<lambda>s d. None), xgb_fit = (\<lambda>X y. None)\<rparr>"

definition arima_always :: forecast_libs where
  "arima_always =
     \<lparr>arima_fit = (\<lambda>v n. Some (\<lambda>i. 1)), prophet_fit = (\<lambda>s d. None), xgb_fit = (\<lambda>X y. None)\<rparr>"

definition rising_four :: series where
  "rising_four = [(1, 2), (2, 4), (3, 6), (4, 8)]"

definition flat_five :: series where
  "flat_five = [(1, 1), (2, 1), (3, 1), (4, 1), (5, 1)]"

definition zero_tail_five :: series where
  "zero_tail_five = [(1, 1), (2, 1), (3, 1), (4, 1), (5, 0)]"

text \<open>Libraries whose ARIMA and prophet both forecast the constant 1.\<close>

definition tie_libs :: forecast_libs where
  "tie_libs =
     \<lparr>arima_fit = (\<lambda>v n. Some (\<lambda>i. 1)), prophet_fit = (\<lambda>s d. Some (\<lambda>i. 1)),
      xgb_fit = (\<lambda>X y. None)\<rparr>"

text \<open>
  A forecast environment without sales data, where every SKU gets the stub forecast,
  and a one-day request that names the same SKU twice.
\<close>

definition empty_env :: forecast_env where
  "empty_env = \<lparr>env_libs = no_libs, sales_table = [], calendar = (\<lambda>g d. True)\<rparr>"

definition one_day_request :: "string list \<Rightarrow> ForecastRequest" where
  "one_day_request skus =
     \<lparr>sku_list = skus, start_date = 1, end_date = 1, granularity = day, location = None,
      forced_model = None\<rparr>"

section \<open>The stub forecast\<close>

lemma length_linspace: "length (linspace a b n e) = n"
  by (simp add: linspace_def Let_def)

lemma nth_linspace:
  "i < n \<Longrightarrow> linspace a b n e ! i =
     (if (if e then n - 1 else n) = 0 then a
      else a + real i * ((b - a) / real (if e then n - 1 else n)))"
  by (simp add: linspace_def Let_def)

lemma length_stub: "length (generate_stub_forecast base horizon) = nat horizon"
  by (simp add: generate_stub_forecast_def Let_def length_linspace)

lemma stub_nonneg: "v \<in> set (generate_stub_forecast base horizon) \<Longrightarrow> 0 \<le> v"
  unfolding generate_stub_forecast_def Let_def
  by (cases "horizon \<le> 0") auto

lemma nth_stub:
  assumes "i < nat horizon"
  shows "generate_stub_forecast base horizon ! i =
           max 0 (base * (1 + 0.12 * sin (real i / real_of_int horizon * 2.5 * pi)
                            + (if horizon = 1 then - 0.08
                               else - 0.08 + 0.16 * (real i / (real_of_int horizon - 1))))
                  + 0.05 * base * sin (1.7 * (real i / real_of_int horizon * 2.5 * pi)))"
proof -
  from assms have h: "0 < horizon" by simp
  have n: "real (nat horizon) = real_of_int horizon" using h by simp
  have n1: "real (nat horizon - 1) = real_of_int horizon - 1" using h by (simp add: of_nat_diff)
  have z: "(nat horizon - 1 = 0) = (horizon = 1)" using h by auto
  show ?thesis
    using assms h
    by (simp add: generate_stub_forecast_def Let_def length_linspace nth_linspace n n1 z
        max.commute algebra_simps)
qed


text \<open>
  Claim C6. The stub forecast is a function of (base, horizon) alone. For a horizon
  \<open>n \<ge> 1\<close> it has \<open>n\<close> entries, and entry \<open>i\<close> is
  \<open>max(0, base * (1 + 0.12 * sin phase + trend) + 0.05 * base * sin (1.7 * phase))\<close> with
  \<open>phase = i / n * 2.5 * pi\<close> and \<open>trend\<close> going linearly from \<open>-0.08\<close> at the first
  entry to \<open>+0.08\<close> at the last. For a horizon \<open>\<le> 0\<close> it is empty. No entry is
  negative, and equal arguments give equal results.
\<close>

theorem stub_forecast_formula:
  "(horizon \<le> 0 \<longrightarrow> generate_stub_forecast base horizon = [])
   \<and> (1 \<le> horizon \<longrightarrow>
        length (generate_stub_forecast base horizon) = nat horizon
        \<and> (\<forall>i < nat horizon.
              generate_stub_forecast base horizon ! i =
                max 0 (base * (1 + 0.12 * sin (real i / real_of_int horizon * 2.5 * pi)
                                 + (if horizon = 1 then - 0.08
                                    else - 0.08 + 0.16 * (real i / (real_of_int horizon - 1))))
                       + 0.05 * base * sin (1.7 * (real i / real_of_int horizon * 2.5 * pi)))))
   \<and> (\<forall>v \<in> set (generate_stub_forecast base horizon). 0 \<le> v)
   \<and> (\<forall>base' horizon'. base' = base \<and> horizon' = horizon \<longrightarrow>
         generate_stub_forecast base' horizon' = generate_stub_forecast base horizon)"
proof (intro conjI impI allI ballI)
  assume "horizon \<le> 0"
  then show "generate_stub_forecast base horizon = []"
    by (simp add: generate_stub_forecast_def)
next
  show "length (generate_stub_forecast base horizon) = nat horizon"
    by (rule length_stub)
next
  fix i assume "i < nat horizon"
  then show "generate_stub_forecast base horizon ! i =
                max 0 (base * (1 + 0.12 * sin (real i / real_of_int horizon * 2.5 * pi)
                                 + (if horizon = 1 then - 0.08
                                    else - 0.08 + 0.16 * (real i / (real_of_int horizon - 1))))
                       + 0.05 * base * sin (1.7 * (real i / real_of_int horizon * 2.5 * pi)))"
    by (rule nth_stub)
next
  fix v assume "v \<in> set (generate_stub_forecast base horizon)"
  then show "0 \<le> v" by (rule stub_nonneg)
next
  fix base' horizon' assume "base' = base \<and> horizon' = horizon"
  then show "generate_stub_forecast base' horizon' = generate_stub_forecast base horizon"
    by simp
qed

theorem stub_forecast_formula_witness:
  "(1::int) \<le> 1 \<and> (0::nat) < nat 1 \<and> length (generate_stub_forecast 100 1) = 1
   \<and> generate_stub_forecast 100 1 ! 0 = 92
   \<and> (0::int) \<le> 0 \<and> generate_stub_forecast 100 0 = []
   \<and> 92 \<in> set (generate_stub_forecast 100 1) \<and> (0::real) \<le> 92"
proof -
  have a: "length (generate_stub_forecast 100 1) = nat 1
           \<and> (\<forall>i < nat 1. generate_stub_forecast 100 1 ! i =
                max 0 (100 * (1 + 0.12 * sin (real i / real_of_int 1 * 2.5 * pi)
                                 + (if (1::int) = 1 then - 0.08
                                    else - 0.08 + 0.16 * (real i / (real_of_int 1 - 1))))
                       + 0.05 * 100 * sin (1.7 * (real i / real_of_int 1 * 2.5 * pi))))"
    using stub_forecast_formula [of 1 100] by blast
  then have l: "length (generate_stub_forecast 100 1) = 1" by simp
  from a have "generate_stub_forecast 100 1 ! 0 =
                max 0 (100 * (1 + 0.12 * sin (real 0 / real_of_int 1 * 2.5 * pi)
                                 + (if (1::int) = 1 then - 0.08
                                    else - 0.08 + 0.16 * (real 0 / (real_of_int 1 - 1))))
                       + 0.05 * 100 * sin (1.7 * (real 0 / real_of_int 1 * 2.5 * pi)))"
    by simp
  then have v: "generate_stub_forecast 100 1 ! 0 = 92" by simp
  have e: "generate_stub_forecast 100 0 = []"
    using stub_forecast_formula [of 0 100] by simp
  have m: "92 \<in> set (generate_stub_forecast 100 1)"
    using l v by (metis nth_mem zero_less_one)
  show ?thesis using l v e m by simp
qed

section \<open>The scenario engine\<close>

text \<open>
  Claim C4. For every base plan and scenario request the scenario engine returns the one
  KPI "Total Volume" with base = the sum of all order and production quantities,
  scenario = base * f and delta = base * f - base, where f is the unweighted mean of the
  factors of the demand shocks, or 1 when there is none. Without a demand shock the
  scenario volume is the base volume and delta is 0; shocks of the other types never
  change the result.
\<close>

theorem scenario_only_demand_shocks:
  "(let base_volume = sum_list (map ro_quantity (pl_orders plan))
                      + sum_list (map pr_quantity (pl_production plan));
        ds = filter (\<lambda>s. shock_type s = Demand) (shocks request);
        f = (if ds = [] then 1 else sum_list (map factor ds) / real (length ds))
    in compute_scenario_kpis plan request =
         [\<lparr>sk_name = ''Total Volume'', sk_base = base_volume, sk_scenario = base_volume * f,
           sk_delta = base_volume * f - base_volume, sk_unit = Some ''units''\<rparr>]
       \<and> ((\<forall>s \<in> set (shocks request). shock_type s \<noteq> Demand) \<longrightarrow>
            compute_scenario_kpis plan request =
              [\<lparr>sk_name = ''Total Volume'', sk_base = base_volume, sk_scenario = base_volume,
                sk_delta = 0, sk_unit = Some ''units''\<rparr>])
       \<and> compute_scenario_kpis plan (request\<lparr>shocks := ds\<rparr>) = compute_scenario_kpis plan request)"
proof -
  have "(\<forall>s \<in> set (shocks request). shock_type s \<noteq> Demand) \<Longrightarrow>
          filter (\<lambda>s. shock_type s = Demand) (shocks request) = []"
    by (simp add: filter_empty_conv)
  then show ?thesis
    by (auto simp: compute_scenario_kpis_def Let_def)
qed

theorem scenario_only_demand_shocks_witness:
  "compute_scenario_kpis
        \<lparr>pl_plan_id = ''p1'', pl_forecast_id = ''f1'',
         pl_orders = [\<lparr>ro_sku = ''A'', ro_location = None, order_date = 1, ro_quantity = 40,
                       order_type = ''purchase''\<rparr>],
         pl_production = [\<lparr>pr_sku = ''A'', line_id = Some ''LINE-1'', production_date = 1,
                           pr_quantity = 60\<rparr>],
         pl_kpis = []\<rparr>
        \<lparr>sq_forecast_id = ''f1'', sq_plan_id = Some ''p1'', sq_name = None,
         shocks = [\<lparr>shock_type = Supply, shock_sku = None, shock_location = None,
                    shock_start_date = 1, shock_end_date = 7, factor = 3, shock_delta = 5\<rparr>,
                   \<lparr>shock_type = Price, shock_sku = None, shock_location = None,
                    shock_start_date = 1, shock_end_date = 7, factor = 2, shock_delta = 0\<rparr>]\<rparr>
      = [\<lparr>sk_name = ''Total Volume'', sk_base = 100, sk_scenario = 100, sk_delta = 0,
          sk_unit = Some ''units''\<rparr>]"
  using scenario_only_demand_shocks
    [of "\<lparr>pl_plan_id = ''p1'', pl_forecast_id = ''f1'',
         pl_orders = [\<lparr>ro_sku = ''A'', ro_location = None, order_date = 1, ro_quantity = 40,
                       order_type = ''purchase''\<rparr>],
         pl_production = [\<lparr>pr_sku = ''A'', line_id = Some ''LINE-1'', production_date = 1,
                           pr_quantity = 60\<rparr>],
         pl_kpis = []\<rparr>"
        "\<lparr>sq_forecast_id = ''f1'', sq_plan_id = Some ''p1'', sq_name = None,
         shocks = [\<lparr>shock_type = Supply, shock_sku = None, shock_location = None,
                    shock_start_date = 1, shock_end_date = 7, factor = 3, shock_delta = 5\<rparr>,
                   \<lparr>shock_type = Price, shock_sku = None, shock_location = None,
                    shock_start_date = 1, shock_end_date = 7, factor = 2, shock_delta = 0\<rparr>]\<rparr>"]
  by (simp add: Let_def)

section \<open>Dictionaries and the demand summary\<close>

lemma map_of_dict_set: "map_of (dict_set d k v) = (map_of d)(k \<mapsto> v)"
  by (induction d) (auto simp: fun_eq_iff)

lemma keys_dict_set: "set (map fst (dict_set d k v)) = insert k (set (map fst d))"
proof (induction d)
  case Nil
  then show ?case by simp
next
  case (Cons a d)
  obtain k' v' where a: "a = (k', v')" by (cases a)
  show ?case
  proof (cases "k' = k")
    case True
    with a show ?thesis by simp
  next
    case False
    with a Cons.IH show ?thesis by (simp add: insert_commute)
  qed
qed

lemma distinct_dict_set:
  "distinct (map fst d) \<Longrightarrow> distinct (map fst (dict_set d k v))"
proof (induction d)
  case Nil
  then show ?case by simp
next
  case (Cons a d)
  obtain k' v' where a: "a = (k', v')" by (cases a)
  show ?case
  proof (cases "k' = k")
    case True
    with Cons.prems a show ?thesis by simp
  next
    case False
    have "k' \<notin> set (map fst (dict_set d k v))"
      using Cons.prems a False by (simp only: keys_dict_set) auto
    with Cons a False show ?thesis by simp
  qed
qed

lemma summarize_step_eq:
  "summarize_step (d, mn, mx) p =
     (dict_set d (fp_sku p) ((case map_of d (fp_sku p) of None \<Rightarrow> 0 | Some v \<Rightarrow> v) + fp_mean p),
      Some (case mn of None \<Rightarrow> fp_date p | Some m \<Rightarrow> min (fp_date p) m),
      Some (case mx of None \<Rightarrow> fp_date p | Some m \<Rightarrow> max (fp_date p) m))"
  by (auto simp: summarize_step_def dict_get_def Let_def min_def max_def split: option.splits)


lemma summarize_fold_demand:
  assumes "distinct (map fst d)"
  shows "distinct (map fst (fst (foldl summarize_step (d, mn, mx) ps)))
         \<and> set (map fst (fst (foldl summarize_step (d, mn, mx) ps)))
             = set (map fst d) \<union> fp_sku ` set ps
         \<and> (\<forall>k. dget0 (fst (foldl summarize_step (d, mn, mx) ps)) k
                   = dget0 d k + sku_demand ps k)"
  using assms
proof (induction ps arbitrary: d mn mx)
  case Nil
  then show ?case by (simp add: sku_demand_def)
next
  case (Cons p ps)
  let ?d = "dict_set d (fp_sku p) ((case map_of d (fp_sku p) of None \<Rightarrow> 0 | Some v \<Rightarrow> v) + fp_mean p)"
  let ?mn = "Some (case mn of None \<Rightarrow> fp_date p | Some m \<Rightarrow> min (fp_date p) m)"
  let ?mx = "Some (case mx of None \<Rightarrow> fp_date p | Some m \<Rightarrow> max (fp_date p) m)"
  have dd: "distinct (map fst ?d)" using Cons.prems by (rule distinct_dict_set)
  note ih = Cons.IH [OF dd, of ?mn ?mx]
  have step: "foldl summarize_step (d, mn, mx) (p # ps) = foldl summarize_step (?d, ?mn, ?mx) ps"
    by (simp only: foldl_Cons summarize_step_eq)
  have g: "\<And>k. dget0 ?d k + sku_demand ps k = dget0 d k + sku_demand (p # ps) k"
    by (simp add: dget0_def map_of_dict_set sku_demand_def)
  have ks: "set (map fst ?d) \<union> fp_sku ` set ps = set (map fst d) \<union> fp_sku ` set (p # ps)"
    by (simp only: keys_dict_set) auto
  show ?case
    unfolding step using ih g ks by simp
qed

section \<open>The supply planner\<close>

lemma Min_insert_min:
  fixes x a :: int
  assumes "finite S"
  shows "Min (insert (min x a) S) = Min (insert a (insert x S))"
proof (cases "S = {}")
  case True
  then show ?thesis by (simp add: min.commute)
next
  case False
  with assms show ?thesis by (simp add: min.assoc min.commute min.left_commute)
qed

lemma Max_insert_max:
  fixes x a :: int
  assumes "finite S"
  shows "Max (insert (max x a) S) = Max (insert a (insert x S))"
proof (cases "S = {}")
  case True
  then show ?thesis by (simp add: max.commute)
next
  case False
  with assms show ?thesis by (simp add: max.assoc max.commute max.left_commute)
qed

lemma summarize_fold_dates:
  "snd (foldl summarize_step (d, Some a, Some b) ps) =
     (Some (Min (insert a (fp_date ` set ps))), Some (Max (insert b (fp_date ` set ps))))"
proof (induction ps arbitrary: d a b)
  case Nil
  then show ?case by simp
next
  case (Cons p ps)
  have mn: "Min (insert (min (fp_date p) a) (fp_date ` set ps))
            = Min (insert a (fp_date ` set (p # ps)))"
    using Min_insert_min [of "fp_date ` set ps" "fp_date p" a] by simp
  have mx: "Max (insert (max (fp_date p) b) (fp_date ` set ps))
            = Max (insert b (fp_date ` set (p # ps)))"
    using Max_insert_max [of "fp_date ` set ps" "fp_date p" b] by simp
  show ?case
    by (simp only: foldl_Cons summarize_step_eq option.case Cons.IH mn mx)
qed

lemma summarize_demand_dates:
  assumes "points \<noteq> []"
  shows "snd (summarize_demand points) =
           (Some (Min (fp_date ` set points)), Some (Max (fp_date ` set points)))"
proof -
  from assms obtain p ps where ps: "points = p # ps" by (cases points) auto
  have "snd (summarize_demand points)
        = snd (foldl summarize_step
                 (dict_set [] (fp_sku p) ((case map_of [] (fp_sku p) of None \<Rightarrow> 0 | Some v \<Rightarrow> v) + fp_mean p),
                  Some (fp_date p), Some (fp_date p)) ps)"
    unfolding summarize_demand_def ps by (simp only: foldl_Cons summarize_step_eq option.case)
  also have "\<dots> = (Some (Min (insert (fp_date p) (fp_date ` set ps))),
                   Some (Max (insert (fp_date p) (fp_date ` set ps))))"
    by (rule summarize_fold_dates)
  finally show ?thesis by (simp add: ps)
qed

lemma summarize_demand_empty: "summarize_demand [] = ([], None, None)"
  by (simp add: summarize_demand_def)

lemma summarize_demand_keys:
  "distinct (map fst (fst (summarize_demand points)))
   \<and> set (map fst (fst (summarize_demand points))) = fp_sku ` set points
   \<and> (\<forall>k. dget0 (fst (summarize_demand points)) k = sku_demand points k)"
  using summarize_fold_demand [of "[]" None None points]
  by (simp add: summarize_demand_def dget0_def)

lemma plan_step_eq:
  "plan_step c loc mn hdays (os, ps, tv) item =
     (os @ orders_for c loc mn hdays item, ps @ production_for c mn hdays item,
      tv + total_required c hdays (snd item))"
  by (cases item) (simp add: plan_step_def orders_for_def production_for_def total_required_def Let_def)

lemma plan_fold:
  "foldl (plan_step c loc mn hdays) (os, ps, tv) items =
     (os @ concat (map (orders_for c loc mn hdays) items),
      ps @ concat (map (production_for c mn hdays) items),
      tv + sum_list (map (\<lambda>item. total_required c hdays (snd item)) items))"
  by (induction items arbitrary: os ps tv) (simp_all add: plan_step_eq algebra_simps)

lemma supply_plan_empty: "generate_supply_plan [] c loc = ([], [], [])"
  by (simp add: generate_supply_plan_def summarize_demand_empty)

lemma supply_plan_nonempty:
  assumes "points \<noteq> []"
  shows "generate_supply_plan points c loc =
           (concat (map (orders_for c loc (Min (fp_date ` set points))
                           (Max (fp_date ` set points) - Min (fp_date ` set points) + 1))
                      (fst (summarize_demand points))),
            concat (map (production_for c (Min (fp_date ` set points))
                           (Max (fp_date ` set points) - Min (fp_date ` set points) + 1))
                      (fst (summarize_demand points))),
            [\<lparr>kpi_name = ''Total Volume'',
              kpi_value = sum_list (map (\<lambda>item. total_required c
                              (Max (fp_date ` set points) - Min (fp_date ` set points) + 1) (snd item))
                            (fst (summarize_demand points))),
              kpi_unit = Some ''units''\<rparr>,
             \<lparr>kpi_name = ''Target Service Level'', kpi_value = target_service_level c,
              kpi_unit = Some []\<rparr>])"
proof -
  obtain dem where dem: "summarize_demand points =
      (dem, Some (Min (fp_date ` set points)), Some (Max (fp_date ` set points)))"
    using summarize_demand_dates [OF assms] by (cases "summarize_demand points") auto
  show ?thesis
    by (simp add: generate_supply_plan_def dem plan_fold Let_def)
qed

lemma orders_for_positive: "o' \<in> set (orders_for c loc mn hdays item) \<Longrightarrow> 0 < ro_quantity o'"
  by (auto simp: orders_for_def split: if_splits)

lemma production_for_positive: "r \<in> set (production_for c mn hdays item) \<Longrightarrow> 0 < pr_quantity r"
  by (auto simp: production_for_def split: if_splits)

lemma orders_for_date: "o' \<in> set (orders_for c loc mn hdays item) \<Longrightarrow> order_date o' = mn"
  by (auto simp: orders_for_def split: if_splits)

lemma production_for_date: "r \<in> set (production_for c mn hdays item) \<Longrightarrow> production_date r = mn"
  by (auto simp: production_for_def split: if_splits)

lemma sum_total_required_by_sku:
  "sum_list (map (\<lambda>item. total_required c hdays (snd item)) (fst (summarize_demand points)))
   = (\<Sum>sku \<in> fp_sku ` set points. total_required c hdays (sku_demand points sku))"
proof -
  let ?dem = "fst (summarize_demand points)"
  have d: "distinct (map fst ?dem)" and k: "set (map fst ?dem) = fp_sku ` set points"
    and v: "\<And>k. dget0 ?dem k = sku_demand points k"
    using summarize_demand_keys [of points] by auto
  have "\<And>item. item \<in> set ?dem \<Longrightarrow> snd item = sku_demand points (fst item)"
  proof -
    fix item assume "item \<in> set ?dem"
    then have "map_of ?dem (fst item) = Some (snd item)"
      using d map_of_is_SomeI [of ?dem "fst item" "snd item"] by simp
    then have "dget0 ?dem (fst item) = snd item" by (simp add: dget0_def)
    then show "snd item = sku_demand points (fst item)" using v by simp
  qed
  then have "map (\<lambda>item. total_required c hdays (snd item)) ?dem
             = map ((\<lambda>sku. total_required c hdays (sku_demand points sku)) \<circ> fst) ?dem"
    by (intro map_cong) simp_all
  then have "sum_list (map (\<lambda>item. total_required c hdays (snd item)) ?dem)
             = sum_list (map (\<lambda>sku. total_required c hdays (sku_demand points sku)) (map fst ?dem))"
    by (simp only: map_map)
  also have "\<dots> = (\<Sum>sku \<in> set (map fst ?dem). total_required c hdays (sku_demand points sku))"
    using d by (rule sum_list_distinct_conv_sum_set)
  finally show ?thesis using k by simp
qed

text \<open>
  Claim C7. On a forecast artifact without points the supply planner returns no orders,
  no production recommendations and no KPIs, and raises nothing. Otherwise it returns
  exactly two KPIs: "Total Volume", the sum over the SKUs of the artifact of their
  total required quantity, and "Target Service Level", the constraint's value. Every
  order and every production recommendation it returns has a quantity above 0.
\<close>

theorem supply_plan_kpis_and_positive_quantities:
  "generate_supply_plan [] c loc = ([], [], [])
   \<and> (points \<noteq> [] \<longrightarrow>
        snd (snd (generate_supply_plan points c loc)) =
          [\<lparr>kpi_name = ''Total Volume'',
            kpi_value = (\<Sum>sku \<in> fp_sku ` set points.
                           total_required c (Max (fp_date ` set points) - Min (fp_date ` set points) + 1)
                             (sku_demand points sku)),
            kpi_unit = Some ''units''\<rparr>,
           \<lparr>kpi_name = ''Target Service Level'', kpi_value = target_service_level c,
            kpi_unit = Some []\<rparr>])
   \<and> (\<forall>o' \<in> set (fst (generate_supply_plan points c loc)). 0 < ro_quantity o')
   \<and> (\<forall>r \<in> set (fst (snd (generate_supply_plan points c loc))). 0 < pr_quantity r)"
proof (cases "points = []")
  case True
  then show ?thesis by (simp add: supply_plan_empty)
next
  case False
  show ?thesis
    using False
    by (auto simp: supply_plan_empty supply_plan_nonempty sum_total_required_by_sku
        dest: orders_for_positive production_for_positive)
qed

lemma demo_points_dates:
  "Min (fp_date ` set demo_points) = 1" "Max (fp_date ` set demo_points) = 2"
  by (simp_all add: demo_points_def)

lemma demo_points_skus: "fp_sku ` set demo_points = {''A'', ''B''}"
  by (auto simp: demo_points_def)

lemma demo_points_demand: "sku_demand demo_points ''A'' = 20" "sku_demand demo_points ''B'' = 0"
  by (simp_all add: sku_demand_def demo_points_def)

lemma demo_total_required:
  "total_required default_constraints 2 20 = 185" "total_required default_constraints 2 0 = 0"
  by (simp_all add: total_required_def compute_safety_stock_for_sku_def default_constraints_def Let_def)

theorem supply_plan_kpis_and_positive_quantities_witness:
  "demo_points \<noteq> []
   \<and> snd (snd (generate_supply_plan demo_points default_constraints None)) =
       [\<lparr>kpi_name = ''Total Volume'', kpi_value = 185, kpi_unit = Some ''units''\<rparr>,
        \<lparr>kpi_name = ''Target Service Level'', kpi_value = 0.95, kpi_unit = Some []\<rparr>]
   \<and> list_all (\<lambda>o'. 0 < ro_quantity o')
        (fst (generate_supply_plan demo_points default_constraints None))
   \<and> list_all (\<lambda>r. 0 < pr_quantity r)
        (fst (snd (generate_supply_plan demo_points default_constraints None)))"
proof -
  have ne: "demo_points \<noteq> []" by (simp add: demo_points_def)
  have tsl: "target_service_level default_constraints = 0.95"
    by (simp add: default_constraints_def)
  show ?thesis
    using supply_plan_kpis_and_positive_quantities [of default_constraints None demo_points] ne
    by (simp add: demo_points_dates demo_points_skus demo_points_demand demo_total_required tsl
        list_all_iff)
qed

lemma filter_orders_for_other:
  "fst item \<noteq> k \<Longrightarrow> filter (\<lambda>o'. ro_sku o' = k) (orders_for c loc mn hdays item) = []"
  by (simp add: orders_for_def)

lemma filter_orders_for_same:
  "filter (\<lambda>o'. ro_sku o' = k) (orders_for c loc mn hdays (k, v)) = orders_for c loc mn hdays (k, v)"
  by (simp add: orders_for_def)

lemma filter_production_for_other:
  "fst item \<noteq> k \<Longrightarrow> filter (\<lambda>r. pr_sku r = k) (production_for c mn hdays item) = []"
  by (simp add: production_for_def)

lemma filter_production_for_same:
  "filter (\<lambda>r. pr_sku r = k) (production_for c mn hdays (k, v)) = production_for c mn hdays (k, v)"
  by (simp add: production_for_def)

lemma filter_orders_absent:
  "k \<notin> set (map fst items) \<Longrightarrow>
     filter (\<lambda>o'. ro_sku o' = k) (concat (map (orders_for c loc mn hdays) items)) = []"
  by (induction items) (auto simp: filter_orders_for_other)

lemma filter_production_absent:
  "k \<notin> set (map fst items) \<Longrightarrow>
     filter (\<lambda>r. pr_sku r = k) (concat (map (production_for c mn hdays) items)) = []"
  by (induction items) (auto simp: filter_production_for_other)

lemma filter_orders_by_sku:
  "distinct (map fst items) \<Longrightarrow> (k, v) \<in> set items \<Longrightarrow>
     filter (\<lambda>o'. ro_sku o' = k) (concat (map (orders_for c loc mn hdays) items))
       = orders_for c loc mn hdays (k, v)"
proof (induction items)
  case Nil
  then show ?case by simp
next
  case (Cons a items)
  show ?case
  proof (cases "a = (k, v)")
    case True
    then have "k \<notin> set (map fst items)" using Cons.prems by auto
    then show ?thesis
      using True by (simp add: filter_orders_absent filter_orders_for_same)
  next
    case False
    then have in_rest: "(k, v) \<in> set items" using Cons.prems by auto
    then have "fst a \<noteq> k" using Cons.prems by (cases a) force
    then show ?thesis
      using Cons.IH Cons.prems in_rest by (simp add: filter_orders_for_other)
  qed
qed

lemma filter_production_by_sku:
  "distinct (map fst items) \<Longrightarrow> (k, v) \<in> set items \<Longrightarrow>
     filter (\<lambda>r. pr_sku r = k) (concat (map (production_for c mn hdays) items))
       = production_for c mn hdays (k, v)"
proof (induction items)
  case Nil
  then show ?case by simp
next
  case (Cons a items)
  show ?case
  proof (cases "a = (k, v)")
    case True
    then have "k \<notin> set (map fst items)" using Cons.prems by auto
    then show ?thesis
      using True by (simp add: filter_production_absent filter_production_for_same)
  next
    case False
    then have in_rest: "(k, v) \<in> set items" using Cons.prems by auto
    then have "fst a \<noteq> k" using Cons.prems by (cases a) force
    then show ?thesis
      using Cons.IH Cons.prems in_rest by (simp add: filter_production_for_other)
  qed
qed

lemma summarize_demand_entry:
  assumes "p \<in> set points"
  shows "(fp_sku p, sku_demand points (fp_sku p)) \<in> set (fst (summarize_demand points))"
proof -
  let ?dem = "fst (summarize_demand points)"
  have d: "distinct (map fst ?dem)" and k: "set (map fst ?dem) = fp_sku ` set points"
    and v: "\<And>k. dget0 ?dem k = sku_demand points k"
    using summarize_demand_keys [of points] by auto
  from assms k have "fp_sku p \<in> set (map fst ?dem)" by auto
  then obtain w where w: "(fp_sku p, w) \<in> set ?dem" by auto
  then have "map_of ?dem (fp_sku p) = Some w" using d by (simp add: map_of_is_SomeI)
  then have "dget0 ?dem (fp_sku p) = w" by (simp add: dget0_def)
  with v w show ?thesis by simp
qed

lemma horizon_days_positive:
  assumes "points \<noteq> []"
  shows "1 \<le> Max (fp_date ` set points) - Min (fp_date ` set points) + 1"
proof -
  have f: "finite (fp_date ` set points)" and ne: "fp_date ` set points \<noteq> {}"
    using assms by auto
  have "Min (fp_date ` set points) \<in> fp_date ` set points" using f ne by (rule Min_in)
  then have "Min (fp_date ` set points) \<le> Max (fp_date ` set points)"
    using f by (rule Max_ge[rotated])
  then show ?thesis by simp
qed

text \<open>
  Claim C3. For every SKU of a non-empty forecast artifact, with total_demand the sum of
  the SKU's means and horizon_days = (max_date - min_date) + 1, the planner computes
  safety_stock = total_demand / horizon_days * lead_time_days * z, where z = 1.65 if
  target_service_level \<ge> 0.95 and z = 1.0 otherwise, total_required = total_demand +
  safety_stock, purchase_quantity = 0.4 * total_required and production_quantity =
  0.6 * total_required; the SKU's order and production recommendation carry exactly
  these quantities (and are left out when the quantity is not positive). When
  total_required > 0, purchase_quantity + production_quantity = total_required and
  purchase_quantity / production_quantity = 2/3.
\<close>

theorem safety_stock_and_order_split:
  assumes "p \<in> set points"
  shows "(let sku = fp_sku p;
              min_date = Min (fp_date ` set points);
              max_date = Max (fp_date ` set points);
              horizon_days = (max_date - min_date) + 1;
              total_demand = sku_demand points sku;
              average_daily_demand = total_demand / real_of_int horizon_days;
              z = (if target_service_level c \<ge> 0.95 then 1.65 else 1.0);
              safety_stock = average_daily_demand * real_of_int (lead_time_days c) * z;
              total_req = total_demand + safety_stock;
              purchase_quantity = 0.4 * total_req;
              production_quantity = 0.6 * total_req
          in compute_safety_stock_for_sku total_demand horizon_days c = safety_stock
             \<and> filter (\<lambda>o'. ro_sku o' = sku) (fst (generate_supply_plan points c loc)) =
                 (if purchase_quantity > 0
                  then [\<lparr>ro_sku = sku, ro_location = loc, order_date = min_date,
                         ro_quantity = purchase_quantity, order_type = ''purchase''\<rparr>]
                  else [])
             \<and> filter (\<lambda>r. pr_sku r = sku) (fst (snd (generate_supply_plan points c loc))) =
                 (if production_quantity > 0
                  then [\<lparr>pr_sku = sku, line_id = Some ''LINE-1'', production_date = min_date,
                         pr_quantity = production_quantity\<rparr>]
                  else [])
             \<and> (total_req > 0 \<longrightarrow>
                   purchase_quantity + production_quantity = total_req
                   \<and> purchase_quantity / production_quantity = 2 / 3))"
proof -
  from assms have ne: "points \<noteq> []" by auto
  let ?hd = "Max (fp_date ` set points) - Min (fp_date ` set points) + 1"
  let ?dem = "fst (summarize_demand points)"
  have hd: "1 \<le> ?hd" using ne by (rule horizon_days_positive)
  have d: "distinct (map fst ?dem)" using summarize_demand_keys [of points] by simp
  have e: "(fp_sku p, sku_demand points (fp_sku p)) \<in> set ?dem"
    using assms by (rule summarize_demand_entry)
  have ss: "compute_safety_stock_for_sku (sku_demand points (fp_sku p)) ?hd c
            = sku_demand points (fp_sku p) / real_of_int ?hd * real_of_int (lead_time_days c)
              * (if target_service_level c \<ge> 0.95 then 1.65 else 1.0)"
    using hd by (simp add: compute_safety_stock_for_sku_def Let_def)
  have os: "filter (\<lambda>o'. ro_sku o' = fp_sku p) (fst (generate_supply_plan points c loc))
            = orders_for c loc (Min (fp_date ` set points)) ?hd (fp_sku p, sku_demand points (fp_sku p))"
    using filter_orders_by_sku [OF d e] by (simp add: supply_plan_nonempty [OF ne])
  have ps: "filter (\<lambda>r. pr_sku r = fp_sku p) (fst (snd (generate_supply_plan points c loc)))
            = production_for c (Min (fp_date ` set points)) ?hd (fp_sku p, sku_demand points (fp_sku p))"
    using filter_production_by_sku [OF d e] by (simp add: supply_plan_nonempty [OF ne])
  define tr where "tr = sku_demand points (fp_sku p)
      + sku_demand points (fp_sku p) / real_of_int ?hd * real_of_int (lead_time_days c)
        * (if target_service_level c \<ge> 0.95 then 1.65 else 1.0)"
  have tr: "total_required c ?hd (sku_demand points (fp_sku p)) = tr"
    by (simp only: total_required_def ss tr_def)
  have alg: "tr > 0 \<longrightarrow> 0.4 * tr + 0.6 * tr = tr \<and> (0.4 * tr) / (0.6 * tr) = 2 / 3"
    by simp
  have os': "filter (\<lambda>o'. ro_sku o' = fp_sku p) (fst (generate_supply_plan points c loc)) =
                 (if 0.4 * tr > 0
                  then [\<lparr>ro_sku = fp_sku p, ro_location = loc, order_date = Min (fp_date ` set points),
                         ro_quantity = 0.4 * tr, order_type = ''purchase''\<rparr>]
                  else [])"
    unfolding os orders_for_def fst_conv snd_conv tr by (simp add: mult.commute)
  have ps': "filter (\<lambda>r. pr_sku r = fp_sku p) (fst (snd (generate_supply_plan points c loc))) =
                 (if 0.6 * tr > 0
                  then [\<lparr>pr_sku = fp_sku p, line_id = Some ''LINE-1'',
                         production_date = Min (fp_date ` set points),
                         pr_quantity = 0.6 * tr\<rparr>]
                  else [])"
    unfolding ps production_for_def fst_conv snd_conv tr by (simp add: mult.commute)
  show ?thesis
    unfolding Let_def tr_def [symmetric]
    using ss os' ps' alg by (intro conjI) assumption+
qed

text \<open>
  Claim C9. Every purchase order's order_date and every production recommendation's
  production_date of a generated plan is the minimum date of the artifact's forecast
  points, whatever the constraints are: lead_time_days never moves a date.
\<close>

theorem recommendation_dates_are_min_date:
  "(\<forall>o' \<in> set (fst (generate_supply_plan points c loc)).
       order_date o' = Min (fp_date ` set points))
   \<and> (\<forall>r \<in> set (fst (snd (generate_supply_plan points c loc))).
       production_date r = Min (fp_date ` set points))"
proof (cases "points = []")
  case True
  then show ?thesis by (simp add: supply_plan_empty)
next
  case False
  then show ?thesis
    by (auto simp: supply_plan_nonempty dest: orders_for_date production_for_date)
qed


lemma demo_plan:
  "generate_supply_plan demo_points default_constraints None =
     ([\<lparr>ro_sku = ''A'', ro_location = None, order_date = 1, ro_quantity = 74,
        order_type = ''purchase''\<rparr>],
      [\<lparr>pr_sku = ''A'', line_id = Some ''LINE-1'', production_date = 1, pr_quantity = 111\<rparr>],
      [\<lparr>kpi_name = ''Total Volume'', kpi_value = 185, kpi_unit = Some ''units''\<rparr>,
       \<lparr>kpi_name = ''Target Service Level'', kpi_value = 0.95, kpi_unit = Some []\<rparr>])"
  by (simp add: generate_supply_plan_def summarize_demand_def summarize_step_def dict_get_def
      demo_points_def default_constraints_def plan_step_def compute_safety_stock_for_sku_def
      Let_def)

theorem safety_stock_and_order_split_witness:
  "\<lparr>fp_sku = ''A'', fp_date = 1, fp_mean = 10, fp_q10 = 8, fp_q50 = 10, fp_q90 = 12\<rparr>
     \<in> set demo_points
   \<and> compute_safety_stock_for_sku 20 2 default_constraints = 165
   \<and> filter (\<lambda>o'. ro_sku o' = ''A'') (fst (generate_supply_plan demo_points default_constraints None))
       = [\<lparr>ro_sku = ''A'', ro_location = None, order_date = 1, ro_quantity = 74,
           order_type = ''purchase''\<rparr>]
   \<and> filter (\<lambda>r. pr_sku r = ''A'') (fst (snd (generate_supply_plan demo_points default_constraints None)))
       = [\<lparr>pr_sku = ''A'', line_id = Some ''LINE-1'', production_date = 1, pr_quantity = 111\<rparr>]
   \<and> (0::real) < 185 \<and> (74::real) + 111 = 185 \<and> (74::real) / 111 = 2 / 3"
proof -
  have m: "\<lparr>fp_sku = ''A'', fp_date = 1, fp_mean = 10, fp_q10 = 8, fp_q50 = 10, fp_q90 = 12\<rparr>
             \<in> set demo_points"
    by (simp add: demo_points_def)
  have tsl: "target_service_level default_constraints = 0.95"
       "lead_time_days default_constraints = 10"
    by (simp_all add: default_constraints_def)
  show ?thesis
    using safety_stock_and_order_split [OF m, of default_constraints None] m
    by (simp add: Let_def demo_points_dates demo_points_demand tsl)
qed

theorem recommendation_dates_are_min_date_witness:
  "fst (generate_supply_plan demo_points default_constraints None) \<noteq> []
   \<and> fst (snd (generate_supply_plan demo_points default_constraints None)) \<noteq> []
   \<and> list_all (\<lambda>o'. order_date o' = 1)
        (fst (generate_supply_plan demo_points default_constraints None))
   \<and> list_all (\<lambda>r. production_date r = 1)
        (fst (snd (generate_supply_plan demo_points default_constraints None)))"
proof -
  have dates: "list_all (\<lambda>o'. order_date o' = 1)
                 (fst (generate_supply_plan demo_points default_constraints None))
               \<and> list_all (\<lambda>r. production_date r = 1)
                 (fst (snd (generate_supply_plan demo_points default_constraints None)))"
    using recommendation_dates_are_min_date [of demo_points default_constraints None]
    by (simp only: demo_points_dates list_all_iff)
  have emitted:
    "fst (generate_supply_plan demo_points default_constraints None) \<noteq> []"
    "fst (snd (generate_supply_plan demo_points default_constraints None)) \<noteq> []"
    by (simp_all add: demo_plan)
  from emitted dates show ?thesis by (intro conjI) blast+
qed

lemma sku_demand_nonneg:
  "\<forall>p \<in> set points. 0 \<le> fp_mean p \<Longrightarrow> 0 \<le> sku_demand points k"
  unfolding sku_demand_def by (rule sum_list_nonneg) auto

lemma total_required_nonneg:
  assumes "0 \<le> td" "1 \<le> hdays" "0 \<le> lead_time_days c"
  shows "0 \<le> total_required c hdays td"
proof -
  have "0 \<le> td / real_of_int hdays * real_of_int (lead_time_days c)
             * (if target_service_level c \<ge> 0.95 then 1.65 else 1.0)"
    using assms by simp
  then show ?thesis
    using assms by (simp add: total_required_def compute_safety_stock_for_sku_def Let_def)
qed

lemma split_sums_to_total:
  "\<forall>item \<in> set items. 0 \<le> total_required c hdays (snd item) \<Longrightarrow>
     sum_list (map ro_quantity (concat (map (orders_for c loc mn hdays) items)))
     + sum_list (map pr_quantity (concat (map (production_for c mn hdays) items)))
     = sum_list (map (\<lambda>item. total_required c hdays (snd item)) items)"
proof (induction items)
  case Nil
  then show ?case by simp
next
  case (Cons a items)
  have one: "sum_list (map ro_quantity (orders_for c loc mn hdays a))
             + sum_list (map pr_quantity (production_for c mn hdays a))
             = total_required c hdays (snd a)"
    using Cons.prems by (auto simp: orders_for_def production_for_def)
  have rest: "sum_list (map ro_quantity (concat (map (orders_for c loc mn hdays) items)))
     + sum_list (map pr_quantity (concat (map (production_for c mn hdays) items)))
     = sum_list (map (\<lambda>item. total_required c hdays (snd item)) items)"
    using Cons by simp
  show ?case using one rest by simp
qed

lemma supply_plan_volume:
  assumes "points \<noteq> []" "\<forall>p \<in> set points. 0 \<le> fp_mean p" "0 \<le> lead_time_days c"
  shows "map kpi_value (filter (\<lambda>k. kpi_name k = ''Total Volume'')
                          (snd (snd (generate_supply_plan points c loc))))
         = [sum_list (map ro_quantity (fst (generate_supply_plan points c loc)))
            + sum_list (map pr_quantity (fst (snd (generate_supply_plan points c loc))))]"
proof -
  let ?hd = "Max (fp_date ` set points) - Min (fp_date ` set points) + 1"
  let ?dem = "fst (summarize_demand points)"
  have hd: "1 \<le> ?hd" using assms(1) by (rule horizon_days_positive)
  have d: "distinct (map fst ?dem)"
    and v: "\<And>k. dget0 ?dem k = sku_demand points k"
    using summarize_demand_keys [of points] by auto
  have "\<forall>item \<in> set ?dem. 0 \<le> total_required c ?hd (snd item)"
  proof
    fix item assume i: "item \<in> set ?dem"
    then have "map_of ?dem (fst item) = Some (snd item)"
      using d map_of_is_SomeI [of ?dem "fst item" "snd item"] by simp
    then have "dget0 ?dem (fst item) = snd item" by (simp add: dget0_def)
    then have "snd item = sku_demand points (fst item)" using v by simp
    then have "0 \<le> snd item" using sku_demand_nonneg [OF assms(2)] by simp
    then show "0 \<le> total_required c ?hd (snd item)"
      using hd assms(3) by (rule total_required_nonneg)
  qed
  then have "sum_list (map ro_quantity (concat (map (orders_for c loc (Min (fp_date ` set points)) ?hd) ?dem)))
     + sum_list (map pr_quantity (concat (map (production_for c (Min (fp_date ` set points)) ?hd) ?dem)))
     = sum_list (map (\<lambda>item. total_required c ?hd (snd item)) ?dem)"
    by (rule split_sums_to_total)
  then show ?thesis
    by (simp add: supply_plan_nonempty [OF assms(1)])
qed

section \<open>Plans and scenarios\<close>

text \<open>
  Claim C10. For every plan generated from forecast points with non-negative means and
  constraints with lead_time_days \<ge> 0, the value of the plan's "Total Volume" KPI is
  the sum of all its order quantities plus all its production quantities. For every
  scenario request the scenario engine returns exactly one KPI for that plan, and its
  base volume is that same sum, hence the plan's own Total Volume. A plan generated
  from at least one point has the Total Volume KPI.
\<close>

theorem plan_total_volume_is_base_volume:
  assumes "generate_plan store new_id payload = Inr (plan, store')"
    and "dict_get (forecasts store) (pg_forecast_id payload) = Some forecast"
    and "\<forall>p \<in> set (fr_points forecast). 0 \<le> fp_mean p"
    and "0 \<le> lead_time_days (pg_constraints payload)"
  shows "(\<forall>k \<in> set (pl_kpis plan). kpi_name k = ''Total Volume'' \<longrightarrow>
            kpi_value k = sum_list (map ro_quantity (pl_orders plan))
                          + sum_list (map pr_quantity (pl_production plan))
            \<and> (\<forall>request. map sk_base (compute_scenario_kpis plan request) = [kpi_value k]))
         \<and> (\<forall>request. map sk_base (compute_scenario_kpis plan request) =
               [sum_list (map ro_quantity (pl_orders plan))
                + sum_list (map pr_quantity (pl_production plan))])
         \<and> (fr_points forecast \<noteq> [] \<longrightarrow>
              (\<exists>k \<in> set (pl_kpis plan). kpi_name k = ''Total Volume''))"
proof -
  let ?g = "generate_supply_plan (fr_points forecast) (pg_constraints payload) (pg_location payload)"
  have plan: "pl_orders plan = fst ?g" "pl_production plan = fst (snd ?g)" "pl_kpis plan = snd (snd ?g)"
    using assms(1,2) by (auto simp: generate_plan_def Let_def split: prod.splits)
  have base: "\<And>request. map sk_base (compute_scenario_kpis plan request) =
                [sum_list (map ro_quantity (pl_orders plan))
                 + sum_list (map pr_quantity (pl_production plan))]"
    by (simp add: compute_scenario_kpis_def Let_def)
  show ?thesis
  proof (cases "fr_points forecast = []")
    case True
    have "pl_kpis plan = []" using True by (simp add: plan supply_plan_empty)
    then show ?thesis using True base by simp
  next
    case False
    have vol: "map kpi_value (filter (\<lambda>k. kpi_name k = ''Total Volume'') (pl_kpis plan))
               = [sum_list (map ro_quantity (pl_orders plan))
                  + sum_list (map pr_quantity (pl_production plan))]"
      unfolding plan using False assms(3,4) by (rule supply_plan_volume)
    have ex: "\<exists>k \<in> set (pl_kpis plan). kpi_name k = ''Total Volume''"
      unfolding plan by (simp add: supply_plan_nonempty [OF False])
    have val: "\<And>k. k \<in> set (pl_kpis plan) \<Longrightarrow> kpi_name k = ''Total Volume'' \<Longrightarrow>
                 kpi_value k = sum_list (map ro_quantity (pl_orders plan))
                               + sum_list (map pr_quantity (pl_production plan))"
    proof -
      fix k assume "k \<in> set (pl_kpis plan)" "kpi_name k = ''Total Volume''"
      then have "kpi_value k \<in> set (map kpi_value (filter (\<lambda>k. kpi_name k = ''Total Volume'') (pl_kpis plan)))"
        by auto
      then show "kpi_value k = sum_list (map ro_quantity (pl_orders plan))
                               + sum_list (map pr_quantity (pl_production plan))"
        unfolding vol by simp
    qed
    show ?thesis using val base ex by simp
  qed
qed

lemma demo_generate_plan:
  "generate_plan demo_store ''p1'' demo_plan_request =
     Inr (demo_plan_response, demo_store\<lparr>plans := [(''p1'', demo_plan_response)]\<rparr>)"
  by (simp add: generate_plan_def demo_store_def demo_plan_request_def demo_forecast_def
      dict_get_def demo_plan demo_plan_response_def Let_def)

theorem plan_total_volume_is_base_volume_witness:
  "generate_plan demo_store ''p1'' demo_plan_request =
     Inr (demo_plan_response, demo_store\<lparr>plans := [(''p1'', demo_plan_response)]\<rparr>)
   \<and> \<lparr>kpi_name = ''Total Volume'', kpi_value = 185, kpi_unit = Some ''units''\<rparr>
        \<in> set (pl_kpis demo_plan_response)
   \<and> (185::real) = sum_list (map ro_quantity (pl_orders demo_plan_response))
                    + sum_list (map pr_quantity (pl_production demo_plan_response))
   \<and> (\<forall>request. map sk_base (compute_scenario_kpis demo_plan_response request) = [185])"
proof -
  have h2: "dict_get (forecasts demo_store) (pg_forecast_id demo_plan_request) = Some demo_forecast"
    by (simp add: demo_store_def demo_plan_request_def dict_get_def)
  have h3: "\<forall>p \<in> set (fr_points demo_forecast). 0 \<le> fp_mean p"
    by (simp add: demo_forecast_def demo_points_def)
  have h4: "0 \<le> lead_time_days (pg_constraints demo_plan_request)"
    by (simp add: demo_plan_request_def default_constraints_def)
  have k: "\<lparr>kpi_name = ''Total Volume'', kpi_value = 185, kpi_unit = Some ''units''\<rparr>
             \<in> set (pl_kpis demo_plan_response)"
    by (simp add: demo_plan_response_def)
  note t = plan_total_volume_is_base_volume [OF demo_generate_plan h2 h3 h4]
  from t k have a: "185 = sum_list (map ro_quantity (pl_orders demo_plan_response))
                    + sum_list (map pr_quantity (pl_production demo_plan_response))"
    by fastforce
  from t k have b: "\<forall>request. map sk_base (compute_scenario_kpis demo_plan_response request) = [185]"
    by fastforce
  show ?thesis using demo_generate_plan k a b by (intro conjI) assumption+
qed

lemma find_as_filter:
  "find P xs = (case filter P xs of [] \<Rightarrow> None | x # _ \<Rightarrow> Some x)"
  by (induction xs) auto

lemma run_scenario_error:
  "(run_scenario fmt store new_id payload = Inl err) = (resolve_base_plan store payload = Inl err)"
  by (cases "resolve_base_plan store payload") (simp_all add: run_scenario_def Let_def)

lemma run_scenario_success:
  "resolve_base_plan store payload = Inr plan \<Longrightarrow>
     \<exists>resp store'. run_scenario fmt store new_id payload = Inr (resp, store')
        \<and> sc_plan_id resp = Some (pl_plan_id plan)
        \<and> sc_kpis resp = compute_scenario_kpis plan payload"
  by (simp add: run_scenario_def Let_def)

text \<open>
  Claim C8, as the code has it. When the request carries a non-empty plan_id,
  \<open>run_scenario\<close> uses the plan stored under that id and fails with 404 (NotFound)
  exactly when the store has no plan under it. When plan_id is absent or the empty
  string, it uses the first plan in the store's insertion order whose forecast_id is
  the request's, and fails with 400 (NoBasePlan) exactly when no stored plan has that
  forecast_id. \<open>run_scenario\<close> fails with exactly the error of this resolution, and
  otherwise answers from the resolved plan.
\<close>

theorem base_plan_resolution:
  "(\<forall>pid. sq_plan_id payload = Some pid \<and> pid \<noteq> [] \<longrightarrow>
       resolve_base_plan store payload =
         (case map_of (plans store) pid of
            None \<Rightarrow> Inl (HTTPException 404 ''Plan not found'')
          | Some plan \<Rightarrow> Inr plan))
   \<and> (sq_plan_id payload = None \<or> sq_plan_id payload = Some [] \<longrightarrow>
       resolve_base_plan store payload =
         (case filter (\<lambda>plan. pl_forecast_id plan = sq_forecast_id payload) (map snd (plans store)) of
            [] \<Rightarrow> Inl (HTTPException 400 ''No base plan available for scenario'')
          | plan # _ \<Rightarrow> Inr plan))
   \<and> (\<forall>err. (run_scenario fmt store new_id payload = Inl err)
              = (resolve_base_plan store payload = Inl err))
   \<and> (\<forall>plan. resolve_base_plan store payload = Inr plan \<longrightarrow>
         (\<exists>resp store'. run_scenario fmt store new_id payload = Inr (resp, store')
            \<and> sc_plan_id resp = Some (pl_plan_id plan)
            \<and> sc_kpis resp = compute_scenario_kpis plan payload))"
proof (intro conjI allI impI)
  fix pid assume "sq_plan_id payload = Some pid \<and> pid \<noteq> []"
  then show "resolve_base_plan store payload =
         (case map_of (plans store) pid of
            None \<Rightarrow> Inl (HTTPException 404 ''Plan not found'')
          | Some plan \<Rightarrow> Inr plan)"
    by (simp add: resolve_base_plan_def dict_get_def)
next
  assume "sq_plan_id payload = None \<or> sq_plan_id payload = Some []"
  then show "resolve_base_plan store payload =
         (case filter (\<lambda>plan. pl_forecast_id plan = sq_forecast_id payload) (map snd (plans store)) of
            [] \<Rightarrow> Inl (HTTPException 400 ''No base plan available for scenario'')
          | plan # _ \<Rightarrow> Inr plan)"
    by (auto simp: resolve_base_plan_def dict_values_def find_as_filter split: list.splits)
next
  fix err
  show "(run_scenario fmt store new_id payload = Inl err)
          = (resolve_base_plan store payload = Inl err)"
    by (rule run_scenario_error)
next
  fix plan assume "resolve_base_plan store payload = Inr plan"
  then show "\<exists>resp store'. run_scenario fmt store new_id payload = Inr (resp, store')
            \<and> sc_plan_id resp = Some (pl_plan_id plan)
            \<and> sc_kpis resp = compute_scenario_kpis plan payload"
    by (rule run_scenario_success)
qed

theorem base_plan_resolution_witness:
  "resolve_base_plan demo_store_with_plan (scenario_request_for ''f1'' (Some ''p1''))
     = Inr demo_plan_response
   \<and> resolve_base_plan demo_store_with_plan (scenario_request_for ''f1'' (Some ''p2''))
     = Inl (HTTPException 404 ''Plan not found'')
   \<and> resolve_base_plan demo_store_with_plan (scenario_request_for ''f1'' None)
     = Inr demo_plan_response
   \<and> resolve_base_plan demo_store_with_plan (scenario_request_for ''f2'' None)
     = Inl (HTTPException 400 ''No base plan available for scenario'')
   \<and> run_scenario plain_formats demo_store_with_plan ''s1'' (scenario_request_for ''f2'' None)
     = Inl (HTTPException 400 ''No base plan available for scenario'')"
proof -
  have a: "resolve_base_plan demo_store_with_plan (scenario_request_for ''f1'' (Some ''p1''))
             = Inr demo_plan_response"
    using base_plan_resolution [of "scenario_request_for ''f1'' (Some ''p1'')" demo_store_with_plan]
    by (simp add: scenario_request_for_def demo_store_with_plan_def)
  have b: "resolve_base_plan demo_store_with_plan (scenario_request_for ''f1'' (Some ''p2''))
             = Inl (HTTPException 404 ''Plan not found'')"
    using base_plan_resolution [of "scenario_request_for ''f1'' (Some ''p2'')" demo_store_with_plan]
    by (simp add: scenario_request_for_def demo_store_with_plan_def)
  have c: "resolve_base_plan demo_store_with_plan (scenario_request_for ''f1'' None)
             = Inr demo_plan_response"
    using base_plan_resolution [of "scenario_request_for ''f1'' None" demo_store_with_plan]
    by (simp add: scenario_request_for_def demo_store_with_plan_def demo_plan_response_def)
  have d: "resolve_base_plan demo_store_with_plan (scenario_request_for ''f2'' None)
             = Inl (HTTPException 400 ''No base plan available for scenario'')"
    using base_plan_resolution [of "scenario_request_for ''f2'' None" demo_store_with_plan]
    by (simp add: scenario_request_for_def demo_store_with_plan_def demo_plan_response_def)
  have e: "run_scenario plain_formats demo_store_with_plan ''s1'' (scenario_request_for ''f2'' None)
             = Inl (HTTPException 400 ''No base plan available for scenario'')"
    using base_plan_resolution [of "scenario_request_for ''f2'' None" demo_store_with_plan
        plain_formats "''s1''"] d
    by blast
  show ?thesis using a b c d e by (intro conjI) assumption+
qed

text \<open>
  The claim as first stated, with "carries an explicit plan_id" for "non-empty": a request
  whose plan_id is the empty string names no stored plan, and still gets no 404; the
  plan of its forecast is used.
\<close>

theorem empty_plan_id_counterexample:
  "sq_plan_id (scenario_request_for ''f1'' (Some [])) = Some []
   \<and> dict_get (plans demo_store_with_plan) [] = None
   \<and> resolve_base_plan demo_store_with_plan (scenario_request_for ''f1'' (Some []))
       = Inr demo_plan_response
   \<and> run_scenario plain_formats demo_store_with_plan ''s1'' (scenario_request_for ''f1'' (Some []))
       \<noteq> Inl (HTTPException 404 ''Plan not found'')
   \<and> \<not> isl (run_scenario plain_formats demo_store_with_plan ''s1''
               (scenario_request_for ''f1'' (Some [])))"
  by (simp add: scenario_request_for_def demo_store_with_plan_def demo_plan_response_def
      resolve_base_plan_def dict_get_def dict_values_def run_scenario_def Let_def)

section \<open>The model selector\<close>

lemma forecast_arima_shape:
  "forecast_arima libs s horizon = Some fc \<Longrightarrow>
     length fc = nat horizon \<and> (\<forall>v \<in> set fc. 0 \<le> v)"
  by (auto simp: forecast_arima_def split: if_splits option.splits)

lemma forecast_prophet_shape:
  "forecast_prophet libs s horizon_dates = Some fc \<Longrightarrow>
     length fc = length horizon_dates \<and> (\<forall>v \<in> set fc. 0 \<le> v)"
  by (auto simp: forecast_prophet_def split: if_splits option.splits)

lemma xgb_rollout_shape:
  "xgb_rollout predict history n = Some fc \<Longrightarrow> length fc = n \<and> (\<forall>v \<in> set fc. 0 \<le> v)"
proof (induction n arbitrary: history fc)
  case 0
  then show ?case by simp
next
  case (Suc n)
  then show ?case
    by (auto simp: Let_def split: option.splits)
qed

lemma forecast_xgb_shape:
  "forecast_xgb libs s horizon = Some fc \<Longrightarrow>
     length fc = nat horizon \<and> (\<forall>v \<in> set fc. 0 \<le> v)"
  by (auto simp: forecast_xgb_def Let_def split: if_splits option.splits dest: xgb_rollout_shape)

lemma forecast_with_name_shape:
  "forecast_with_name libs s horizon_dates name = (Some fc, chosen) \<Longrightarrow>
     length fc = length horizon_dates \<and> (\<forall>v \<in> set fc. 0 \<le> v)"
  by (auto simp: forecast_with_name_def Let_def length_stub
      split: if_splits dest: forecast_arima_shape forecast_prophet_shape forecast_xgb_shape
        stub_nonneg)

lemma forecast_with_name_chosen:
  "name \<in> {''arima'', ''prophet'', ''xgboost'', ''stub''} \<Longrightarrow>
     snd (forecast_with_name libs s horizon_dates name) = name"
  by (auto simp: forecast_with_name_def Let_def)

lemma select_early_stub:
  "length s < 4 \<or> horizon_dates = [] \<Longrightarrow>
     select_model_and_forecast libs s horizon_dates forced =
       (generate_stub_forecast (stub_base s) (int (length horizon_dates)), ''stub'', [])"
  by (auto simp: select_model_and_forecast_def Let_def)

lemma select_forced:
  assumes "4 \<le> length s" "horizon_dates \<noteq> []" "f \<in> set known_models"
  shows "select_model_and_forecast libs s horizon_dates (Some f) =
           (case fst (forecast_with_name libs s horizon_dates f) of
              None \<Rightarrow> (generate_stub_forecast (stub_base s) (int (length horizon_dates)), ''stub'',
                        validation_metrics libs s)
            | Some fc \<Rightarrow> (fc, f, validation_metrics libs s))"
proof -
  have k: "f \<in> {''arima'', ''prophet'', ''xgboost'', ''stub''}"
    using assms(3) by (simp add: known_models_def)
  obtain r ch where r: "forecast_with_name libs s horizon_dates f = (r, ch)"
    by (cases "forecast_with_name libs s horizon_dates f")
  have ch: "ch = f" using forecast_with_name_chosen [OF k, of libs s horizon_dates] r by simp
  show ?thesis
    using assms r ch
    by (simp add: select_model_and_forecast_def Let_def split: option.splits)
qed

lemma dict_get_dict_set:
  "dict_get (dict_set d k v) k' = (if k' = k then Some v else dict_get d k')"
  by (simp add: dict_get_def map_of_dict_set)

lemma validation_forecast_simps:
  "validation_forecast L s ''arima'' = forecast_arima L (train_of s) (int (n_val_of s))"
  "validation_forecast L s ''prophet'' = forecast_prophet L (train_of s) (val_dates_of s)"
  "validation_forecast L s ''xgboost'' = forecast_xgb L (train_of s) (int (n_val_of s))"
  by (simp_all add: validation_forecast_def)

lemma validation_metrics_alt:
  "validation_metrics L s =
     (let m0 = [];
          m1 = (case validation_forecast L s ''arima'' of
                  None \<Rightarrow> m0
                | Some v \<Rightarrow> dict_set (dict_set m0 ''arima_mape'' (compute_mape (val_true_of s) v))
                              ''arima_mae'' (compute_mae (val_true_of s) v));
          m2 = (case validation_forecast L s ''prophet'' of
                  None \<Rightarrow> m1
                | Some v \<Rightarrow> dict_set (dict_set m1 ''prophet_mape'' (compute_mape (val_true_of s) v))
                              ''prophet_mae'' (compute_mae (val_true_of s) v))
      in (case validation_forecast L s ''xgboost'' of
            None \<Rightarrow> m2
          | Some v \<Rightarrow> dict_set (dict_set m2 ''xgb_mape'' (compute_mape (val_true_of s) v))
                        ''xgb_mae'' (compute_mae (val_true_of s) v)))"
  unfolding validation_metrics_def validation_forecast_simps n_val_of_def train_of_def
      val_true_of_def val_dates_of_def Let_def
  by (rule refl)

lemma validation_metrics_mape:
  "dict_get (validation_metrics L s) ''arima_mape'' = validation_mape L s ''arima''"
  "dict_get (validation_metrics L s) ''prophet_mape'' = validation_mape L s ''prophet''"
  "dict_get (validation_metrics L s) ''xgb_mape'' = validation_mape L s ''xgboost''"
  by (simp_all add: validation_metrics_alt validation_mape_def Let_def dict_get_dict_set
      split: option.splits, simp_all add: dict_get_def)

lemma validation_metrics_mae_xgb:
  "validation_forecast L s ''xgboost'' = None \<Longrightarrow>
     dict_get (validation_metrics L s) ''xgb_mae'' = None"
  by (simp add: validation_metrics_alt Let_def dict_get_dict_set split: option.splits,
      simp_all add: dict_get_def)

lemma xgb_validation_needs_six:
  assumes "length s < 6"
  shows "validation_forecast L s ''xgboost'' = None"
proof -
  have "length (train_of s) < 6" using assms by (simp add: train_of_def)
  then show ?thesis by (simp add: validation_forecast_simps forecast_xgb_def)
qed

text \<open>
  Claim C5, as the code has it. (1) On a history of fewer than four points, or an empty
  horizon, the selector returns the stub forecast, reports "stub" and returns no
  metrics, whatever forced_model is. (2) When a forced strategy of the known names gives
  no forecast on the full history, the selector returns the stub forecast and reports
  "stub", raising nothing, together with the validation metrics computed on the
  training prefix. Those hold no entry of the forced strategy when its own length guard
  made it inapplicable (xgboost on fewer than six points); for arima and prophet the
  guard has passed at this point, so they can only have failed inside the library.
\<close>

theorem forced_model_fallback:
  "(length s < 4 \<or> horizon_dates = [] \<longrightarrow>
      select_model_and_forecast L s horizon_dates forced =
        (generate_stub_forecast (stub_base s) (int (length horizon_dates)), ''stub'', []))
   \<and> (4 \<le> length s \<and> horizon_dates \<noteq> [] \<and> f \<in> set known_models
        \<and> fst (forecast_with_name L s horizon_dates f) = None \<longrightarrow>
        select_model_and_forecast L s horizon_dates (Some f) =
          (generate_stub_forecast (stub_base s) (int (length horizon_dates)), ''stub'',
           validation_metrics L s)
        \<and> (f = ''xgboost'' \<and> length s < 6 \<longrightarrow>
              dict_get (validation_metrics L s) ''xgb_mape'' = None
              \<and> dict_get (validation_metrics L s) ''xgb_mae'' = None)
        \<and> (f = ''arima'' \<longrightarrow> arima_fit L (series_values s) (length horizon_dates) = None)
        \<and> (f = ''prophet'' \<longrightarrow> prophet_fit L s horizon_dates = None))"
proof (intro conjI impI)
  assume "length s < 4 \<or> horizon_dates = []"
  then show "select_model_and_forecast L s horizon_dates forced =
        (generate_stub_forecast (stub_base s) (int (length horizon_dates)), ''stub'', [])"
    by (rule select_early_stub)
next
  assume a: "4 \<le> length s \<and> horizon_dates \<noteq> [] \<and> f \<in> set known_models
        \<and> fst (forecast_with_name L s horizon_dates f) = None"
  then show "select_model_and_forecast L s horizon_dates (Some f) =
          (generate_stub_forecast (stub_base s) (int (length horizon_dates)), ''stub'',
           validation_metrics L s)"
    using select_forced [of s horizon_dates f L] by simp
next
  assume "f = ''xgboost'' \<and> length s < 6"
  then have "validation_forecast L s ''xgboost'' = None"
    by (simp add: xgb_validation_needs_six)
  then show "dict_get (validation_metrics L s) ''xgb_mape'' = None"
    by (simp add: validation_metrics_mape validation_mape_def)
next
  assume "f = ''xgboost'' \<and> length s < 6"
  then have "validation_forecast L s ''xgboost'' = None"
    by (simp add: xgb_validation_needs_six)
  then show "dict_get (validation_metrics L s) ''xgb_mae'' = None"
    by (rule validation_metrics_mae_xgb)
next
  assume a: "4 \<le> length s \<and> horizon_dates \<noteq> [] \<and> f \<in> set known_models
        \<and> fst (forecast_with_name L s horizon_dates f) = None"
    and f: "f = ''arima''"
  then show "arima_fit L (series_values s) (length horizon_dates) = None"
    by (auto simp: forecast_with_name_def forecast_arima_def Let_def split: option.splits if_splits)
next
  assume a: "4 \<le> length s \<and> horizon_dates \<noteq> [] \<and> f \<in> set known_models
        \<and> fst (forecast_with_name L s horizon_dates f) = None"
    and f: "f = ''prophet''"
  then show "prophet_fit L s horizon_dates = None"
    by (auto simp: forecast_with_name_def forecast_prophet_def Let_def split: option.splits if_splits)
qed

theorem forced_model_fallback_witness:
  "select_model_and_forecast no_libs [(1, 5)] [2, 3] (Some ''arima'') =
     (generate_stub_forecast 5 2, ''stub'', [])
   \<and> select_model_and_forecast no_libs rising_four [5, 6] (Some ''xgboost'') =
     (generate_stub_forecast 5 2, ''stub'', validation_metrics no_libs rising_four)
   \<and> dict_get (validation_metrics no_libs rising_four) ''xgb_mape'' = None
   \<and> dict_get (validation_metrics no_libs rising_four) ''xgb_mae'' = None"
proof -
  have h: "4 \<le> length rising_four \<and> [5, 6 :: int] \<noteq> [] \<and> ''xgboost'' \<in> set known_models
           \<and> fst (forecast_with_name no_libs rising_four [5, 6] ''xgboost'') = None"
    by (simp add: rising_four_def known_models_def forecast_with_name_def forecast_xgb_def)
  have b: "stub_base rising_four = 5" "stub_base [(1, 5)] = 5"
    by (simp_all add: stub_base_def rising_four_def series_values_def)
  have l: "length rising_four < 6" by (simp add: rising_four_def)
  have one: "select_model_and_forecast no_libs [(1, 5)] [2, 3] (Some ''arima'') =
     (generate_stub_forecast 5 2, ''stub'', [])"
    using forced_model_fallback [of "[(1, 5)]" "[2, 3]" no_libs "Some ''arima''"] b by simp
  have two: "select_model_and_forecast no_libs rising_four [5, 6] (Some ''xgboost'') =
     (generate_stub_forecast 5 2, ''stub'', validation_metrics no_libs rising_four)
   \<and> dict_get (validation_metrics no_libs rising_four) ''xgb_mape'' = None
   \<and> dict_get (validation_metrics no_libs rising_four) ''xgb_mae'' = None"
    using forced_model_fallback [of rising_four "[5, 6]" no_libs _ "''xgboost''"] h b l by simp
  from one two show ?thesis by (intro conjI) blast+
qed

text \<open>
  The claim as first stated also covers a forced strategy that fails: then the metrics
  of the forced strategy need not be empty. Here the forced ARIMA fit fails on the full
  five-point history after it has succeeded on the four-point training prefix, and the
  result carries its validation MAPE and MAE.
\<close>

theorem forced_model_metrics_counterexample:
  "4 \<le> length flat_five
   \<and> fst (forecast_with_name arima_only_on_four flat_five [6] ''arima'') = None
   \<and> select_model_and_forecast arima_only_on_four flat_five [6] (Some ''arima'') =
       (generate_stub_forecast 1 1, ''stub'', [(''arima_mape'', Fin 0), (''arima_mae'', Fin 0)])"
  by (simp add: select_model_and_forecast_def validation_metrics_def forecast_with_name_def
      forecast_arima_def forecast_prophet_def forecast_xgb_def arima_only_on_four_def
      flat_five_def known_models_def compute_mape_def compute_mae_def series_values_def
      series_index_def stub_base_def Let_def)

lemma score_candidates_eq:
  "score_candidates_of (validation_metrics L s) = mape_candidates L s"
  by (simp add: score_candidates_of_def validation_metrics_mape mape_candidates_def
      List.map_filter_simps Let_def split: option.splits)

lemma xless_irrefl: "\<not> xless a a"
  by (cases a) simp_all

lemma xless_trans: "xless a b \<Longrightarrow> xless b c \<Longrightarrow> xless a c"
  by (cases a; cases b; cases c) simp_all

lemma xless_asym: "xless a b \<Longrightarrow> \<not> xless b a"
  by (cases a; cases b) simp_all

lemma xless_neg_trans: "\<not> xless a b \<Longrightarrow> \<not> xless b c \<Longrightarrow> \<not> xless a c"
  by (cases a; cases b; cases c) simp_all

lemma py_min_is_spec_best:
  fixes A P X :: "xreal option"
  defines "cands \<equiv> (case A of None \<Rightarrow> [] | Some a \<Rightarrow> [(''arima'', a)])
                   @ (case P of None \<Rightarrow> [] | Some p \<Rightarrow> [(''prophet'', p)])
                   @ (case X of None \<Rightarrow> [] | Some x \<Rightarrow> [(''xgboost'', x)])"
  shows "spec_best_model cands = (case cands of [] \<Rightarrow> None | c # cs \<Rightarrow> Some (fst (py_min_from c cs)))"
  unfolding cands_def spec_best_model_def
  by (cases A; cases P; cases X)
     (auto simp: xless_irrefl dest: xless_asym xless_trans xless_neg_trans)


lemma mape_candidates_alt:
  "mape_candidates L s =
     (case validation_mape L s ''arima'' of None \<Rightarrow> [] | Some a \<Rightarrow> [(''arima'', a)])
     @ (case validation_mape L s ''prophet'' of None \<Rightarrow> [] | Some p \<Rightarrow> [(''prophet'', p)])
     @ (case validation_mape L s ''xgboost'' of None \<Rightarrow> [] | Some x \<Rightarrow> [(''xgboost'', x)])"
  by (simp add: mape_candidates_def List.map_filter_simps split: option.splits)

lemma spec_best_of_candidates:
  "spec_best_model (mape_candidates L s) =
     (case mape_candidates L s of [] \<Rightarrow> None | c # cs \<Rightarrow> Some (fst (py_min_from c cs)))"
  unfolding mape_candidates_alt by (rule py_min_is_spec_best)

lemma py_min_from_member: "py_min_from c cs \<in> set (c # cs)"
  by (induction cs arbitrary: c) auto

lemma mape_candidates_names:
  "c \<in> set (mape_candidates L s) \<Longrightarrow> fst c \<in> {''arima'', ''prophet'', ''xgboost''}"
  by (auto simp: mape_candidates_alt split: option.splits)

lemma mape_candidates_empty:
  "(mape_candidates L s = []) = (\<forall>name. validation_mape L s name = None)"
proof
  assume "mape_candidates L s = []"
  then have "validation_mape L s ''arima'' = None" "validation_mape L s ''prophet'' = None"
      "validation_mape L s ''xgboost'' = None"
    by (auto simp: mape_candidates_alt split: option.splits)
  then show "\<forall>name. validation_mape L s name = None"
    by (auto simp: validation_mape_def validation_forecast_def)
next
  assume "\<forall>name. validation_mape L s name = None"
  then show "mape_candidates L s = []" by (simp add: mape_candidates_alt)
qed

lemma metrics_nonempty_of_candidates:
  "mape_candidates L s \<noteq> [] \<Longrightarrow> validation_metrics L s \<noteq> []"
proof -
  assume "mape_candidates L s \<noteq> []"
  then obtain k where "dict_get (validation_metrics L s) k \<noteq> None"
    by (auto simp: mape_candidates_alt validation_metrics_mape [symmetric] split: option.splits)
  then show ?thesis by (auto simp: dict_get_def)
qed

lemma select_auto:
  assumes "4 \<le> length s" "horizon_dates \<noteq> []"
    and "forced = None \<or> (\<exists>f. forced = Some f \<and> f \<notin> set known_models)"
  shows "select_model_and_forecast L s horizon_dates forced =
           (case spec_best_model (mape_candidates L s) of
              None \<Rightarrow> (generate_stub_forecast (stub_base s) (int (length horizon_dates)), ''stub'',
                        validation_metrics L s)
            | Some b \<Rightarrow> (fst (final_or_stub L s horizon_dates b),
                         snd (final_or_stub L s horizon_dates b), validation_metrics L s))"
proof -
  have nf: "\<not> (case forced of None \<Rightarrow> False | Some f \<Rightarrow> f \<in> set known_models)"
    using assms(3) by (auto split: option.splits)
  show ?thesis
  proof (cases "mape_candidates L s")
    case Nil
    have sb: "spec_best_model [] = None" by (simp add: spec_best_model_def)
    show ?thesis
      using assms(1,2) nf Nil sb
      by (simp add: select_model_and_forecast_def Let_def score_candidates_eq)
  next
    case (Cons c cs)
    have m: "validation_metrics L s \<noteq> []"
      using Cons by (intro metrics_nonempty_of_candidates) simp
    have "py_min_from c cs \<in> set (mape_candidates L s)"
      using py_min_from_member [of c cs] Cons by simp
    then have b: "fst (py_min_from c cs) \<in> {''arima'', ''prophet'', ''xgboost'', ''stub''}"
      using mape_candidates_names by blast
    obtain r ch where r: "forecast_with_name L s horizon_dates (fst (py_min_from c cs)) = (r, ch)"
      by (cases "forecast_with_name L s horizon_dates (fst (py_min_from c cs))")
    have ch: "ch = fst (py_min_from c cs)"
      using forecast_with_name_chosen [OF b, of L s horizon_dates] r by simp
    have sb: "spec_best_model (c # cs) = Some (fst (py_min_from c cs))"
      using spec_best_of_candidates [of L s] Cons by simp
    show ?thesis
      using assms(1,2) nf m Cons r ch sb
      by (simp add: select_model_and_forecast_def Let_def score_candidates_eq
          final_or_stub_def split: option.splits)
  qed
qed

lemma find_Some_holds: "find P xs = Some x \<Longrightarrow> P x \<and> x \<in> set xs"
  by (induction xs) (auto split: if_splits)

lemma spec_best_model_minimal:
  assumes "spec_best_model cands = Some b"
  shows "\<exists>v. (b, v) \<in> set cands \<and> (\<forall>c' \<in> set cands. \<not> xless (snd c') v)"
proof -
  from assms obtain c
    where c: "find (\<lambda>c. \<forall>c' \<in> set cands. \<not> xless (snd c') (snd c)) cands = Some c"
      and b: "fst c = b"
    by (auto simp: spec_best_model_def)
  from c have "c \<in> set cands" "\<forall>c' \<in> set cands. \<not> xless (snd c') (snd c)"
    by (auto dest: find_Some_holds)
  with b have "(b, snd c) \<in> set cands \<and> (\<forall>c' \<in> set cands. \<not> xless (snd c') (snd c))"
    by auto
  then show ?thesis by blast
qed

lemma mape_candidates_member:
  "((n, w) \<in> set (mape_candidates L s)) = (validation_mape L s n = Some w)"
proof
  assume "(n, w) \<in> set (mape_candidates L s)"
  then show "validation_mape L s n = Some w"
    by (auto simp: mape_candidates_alt split: option.splits)
next
  assume v: "validation_mape L s n = Some w"
  have "n \<notin> {''arima'', ''prophet'', ''xgboost''} \<Longrightarrow> validation_mape L s n = None"
    by (auto simp: validation_mape_def validation_forecast_def)
  with v consider "n = ''arima''" | "n = ''prophet''" | "n = ''xgboost''" by force
  then show "(n, w) \<in> set (mape_candidates L s)"
  proof cases
    case 1
    with v show ?thesis by (simp add: mape_candidates_alt)
  next
    case 2
    with v show ?thesis by (simp add: mape_candidates_alt)
  next
    case 3
    with v show ?thesis by (simp add: mape_candidates_alt)
  qed
qed

text \<open>
  Claim C1, as the code has it. In auto-selection mode (no forced model of the known
  names, at least four points of history, a non-empty horizon) the selector takes the
  strategy with the lowest validation MAPE among the strategies that gave a validation
  forecast, an infinite MAPE counting as a value above every finite one, and among equal
  MAPEs the first of arima, prophet, xgboost; it returns that strategy's forecast on the
  full history, or the stub forecast when the strategy gives none there. It falls back
  to the stub without selecting exactly when no strategy gave a validation forecast.
\<close>

theorem auto_selection_lowest_mape:
  assumes "4 \<le> length s" and "horizon_dates \<noteq> []"
    and "forced = None \<or> (\<exists>f. forced = Some f \<and> f \<notin> set known_models)"
  shows "select_model_and_forecast L s horizon_dates forced =
           (case spec_best_model (mape_candidates L s) of
              None \<Rightarrow> (generate_stub_forecast (stub_base s) (int (length horizon_dates)), ''stub'',
                        validation_metrics L s)
            | Some b \<Rightarrow> (fst (final_or_stub L s horizon_dates b),
                         snd (final_or_stub L s horizon_dates b), validation_metrics L s))
         \<and> ((spec_best_model (mape_candidates L s) = None)
              = (\<forall>name. validation_mape L s name = None))
         \<and> (\<forall>b. spec_best_model (mape_candidates L s) = Some b \<longrightarrow>
               (\<exists>v. validation_mape L s b = Some v
                  \<and> (\<forall>n w. validation_mape L s n = Some w \<longrightarrow> \<not> xless w v)))"
proof (intro conjI allI impI)
  show "select_model_and_forecast L s horizon_dates forced =
           (case spec_best_model (mape_candidates L s) of
              None \<Rightarrow> (generate_stub_forecast (stub_base s) (int (length horizon_dates)), ''stub'',
                        validation_metrics L s)
            | Some b \<Rightarrow> (fst (final_or_stub L s horizon_dates b),
                         snd (final_or_stub L s horizon_dates b), validation_metrics L s))"
    using assms by (rule select_auto)
next
  have "(spec_best_model (mape_candidates L s) = None) = (mape_candidates L s = [])"
    by (simp add: spec_best_of_candidates split: list.splits)
  then show "(spec_best_model (mape_candidates L s) = None)
              = (\<forall>name. validation_mape L s name = None)"
    by (simp only: mape_candidates_empty)
next
  fix b assume "spec_best_model (mape_candidates L s) = Some b"
  then obtain v where v: "(b, v) \<in> set (mape_candidates L s)"
      and mn: "\<forall>c' \<in> set (mape_candidates L s). \<not> xless (snd c') v"
    using spec_best_model_minimal by blast
  have "\<forall>n w. validation_mape L s n = Some w \<longrightarrow> \<not> xless w v"
  proof (intro allI impI)
    fix n w assume "validation_mape L s n = Some w"
    then have "(n, w) \<in> set (mape_candidates L s)" by (simp only: mape_candidates_member)
    with mn show "\<not> xless w v" by force
  qed
  with v show "\<exists>v. validation_mape L s b = Some v
                  \<and> (\<forall>n w. validation_mape L s n = Some w \<longrightarrow> \<not> xless w v)"
    by (auto simp: mape_candidates_member)
qed

lemma flat_five_split:
  "n_val_of flat_five = 1" "train_of flat_five = [(1, 1), (2, 1), (3, 1), (4, 1)]"
  "val_true_of flat_five = [1]" "val_dates_of flat_five = [4]"
  by (simp_all add: n_val_of_def train_of_def val_true_of_def val_dates_of_def flat_five_def
      series_values_def series_index_def)

lemma tie_validation:
  "validation_mape tie_libs flat_five ''arima'' = Some (Fin 0)"
  "validation_mape tie_libs flat_five ''prophet'' = Some (Fin 0)"
  "validation_mape tie_libs flat_five ''xgboost'' = None"
  by (simp_all add: validation_mape_def validation_forecast_simps flat_five_split
      forecast_arima_def forecast_prophet_def forecast_xgb_def tie_libs_def compute_mape_def)

theorem auto_selection_lowest_mape_witness:
  "select_model_and_forecast tie_libs flat_five [6] None =
     ([1], ''arima'', validation_metrics tie_libs flat_five)
   \<and> mape_candidates tie_libs flat_five = [(''arima'', Fin 0), (''prophet'', Fin 0)]
   \<and> spec_best_model (mape_candidates tie_libs flat_five) = Some ''arima''"
proof -
  have c: "mape_candidates tie_libs flat_five = [(''arima'', Fin 0), (''prophet'', Fin 0)]"
    by (simp add: mape_candidates_alt tie_validation)
  have b: "spec_best_model (mape_candidates tie_libs flat_five) = Some ''arima''"
    unfolding c by (simp add: spec_best_model_def)
  have f: "final_or_stub tie_libs flat_five [6] ''arima'' = ([1], ''arima'')"
    by (simp add: final_or_stub_def forecast_with_name_def forecast_arima_def tie_libs_def
        flat_five_def)
  have h: "4 \<le> length flat_five" "[6::int] \<noteq> []" by (simp_all add: flat_five_def)
  have "select_model_and_forecast tie_libs flat_five [6] None =
     ([1], ''arima'', validation_metrics tie_libs flat_five)"
    using auto_selection_lowest_mape [OF h, of None tie_libs] b f by simp
  with c b show ?thesis by (intro conjI) assumption+
qed

text \<open>
  The claim as first stated looks only at finite MAPEs and falls back to the stub when
  there is none. Here the validation window holds the single actual value 0, so the one
  strategy that ran, ARIMA, has an infinite MAPE, and it is selected all the same.
\<close>

theorem infinite_mape_counterexample:
  "validation_mape arima_always zero_tail_five ''arima'' = Some PosInf
   \<and> validation_mape arima_always zero_tail_five ''prophet'' = None
   \<and> validation_mape arima_always zero_tail_five ''xgboost'' = None
   \<and> select_model_and_forecast arima_always zero_tail_five [6] None =
       ([1], ''arima'', [(''arima_mape'', PosInf), (''arima_mae'', Fin 1)])"
  by (simp add: validation_mape_def validation_forecast_simps n_val_of_def train_of_def
      val_true_of_def val_dates_of_def
      select_model_and_forecast_def validation_metrics_def forecast_with_name_def
      score_candidates_of_def dict_get_def
      forecast_arima_def forecast_prophet_def forecast_xgb_def arima_always_def
      zero_tail_five_def known_models_def compute_mape_def compute_mae_def series_values_def
      series_index_def stub_base_def Let_def)

section \<open>The forecast orchestrator\<close>

lemma select_shape:
  "select_model_and_forecast L s horizon_dates forced = (fc, chosen, m) \<Longrightarrow>
     length fc = length horizon_dates \<and> (\<forall>v \<in> set fc. 0 \<le> v)"
proof -
  assume r: "select_model_and_forecast L s horizon_dates forced = (fc, chosen, m)"
  let ?stub = "generate_stub_forecast (stub_base s) (int (length horizon_dates))"
  have st: "length ?stub = length horizon_dates \<and> (\<forall>v \<in> set ?stub. 0 \<le> v)"
    using stub_nonneg by (simp add: length_stub)
  have fw: "\<And>name fc' ch. forecast_with_name L s horizon_dates name = (Some fc', ch) \<Longrightarrow>
              length fc' = length horizon_dates \<and> (\<forall>v \<in> set fc'. 0 \<le> v)"
    by (rule forecast_with_name_shape)
  from r have "fc = ?stub \<or> (\<exists>name ch. forecast_with_name L s horizon_dates name = (Some fc, ch))"
    by (auto simp: select_model_and_forecast_def Let_def
        split: if_splits option.splits list.splits prod.splits)
  with st fw show ?thesis by blast
qed

lemma sku_forecast_shape:
  "sku_forecast env request date_index sku = (fc, chosen, m) \<Longrightarrow>
     length fc = length date_index \<and> (\<forall>v \<in> set fc. 0 \<le> v)"
  using stub_nonneg [of _ "100" "int (length date_index)"]
  by (auto simp: sku_forecast_def Let_def length_stub split: if_splits dest: select_shape)

lemma forecast_fold_points:
  "fst (foldl (forecast_one_sku env request date_index) (pts, gm, psm) skus) =
     pts @ concat (map (\<lambda>sku. quantile_points sku date_index
                                 (fst (sku_forecast env request date_index sku))) skus)"
proof (induction skus arbitrary: pts gm psm)
  case Nil
  then show ?case by simp
next
  case (Cons sku skus)
  obtain mv ch m where r: "sku_forecast env request date_index sku = (mv, ch, m)"
    by (cases "sku_forecast env request date_index sku")
  obtain gm' psm' where step:
    "forecast_one_sku env request date_index (pts, gm, psm) sku =
       (pts @ quantile_points sku date_index mv, gm', psm')"
    by (simp add: forecast_one_sku_def r Let_def)
  have "fst (foldl (forecast_one_sku env request date_index) (pts, gm, psm) (sku # skus)) =
          fst (foldl (forecast_one_sku env request date_index)
                 (pts @ quantile_points sku date_index mv, gm', psm') skus)"
    by (simp only: foldl_Cons step)
  also have "\<dots> = (pts @ quantile_points sku date_index mv)
                    @ concat (map (\<lambda>sku. quantile_points sku date_index
                                 (fst (sku_forecast env request date_index sku))) skus)"
    by (rule Cons.IH)
  finally show ?case by (simp add: r)
qed

lemma ensemble_points:
  "fst (generate_ensemble_forecast env request) =
     (let date_index = date_range (calendar env) (start_date request) (end_date request)
                         (granularity request)
      in concat (map (\<lambda>sku. quantile_points sku date_index
                                 (fst (sku_forecast env request date_index sku)))
                   (sku_list request)))"
proof -
  let ?di = "date_range (calendar env) (start_date request) (end_date request) (granularity request)"
  obtain pts gm psm where f:
    "foldl (forecast_one_sku env request ?di) ([], [], []) (sku_list request) = (pts, gm, psm)"
    by (cases "foldl (forecast_one_sku env request ?di) ([], [], []) (sku_list request)")
  have "pts = concat (map (\<lambda>sku. quantile_points sku ?di (fst (sku_forecast env request ?di sku)))
                        (sku_list request))"
    using forecast_fold_points [of env request ?di "[]" "[]" "[]" "sku_list request"] f by simp
  then show ?thesis
    by (simp add: generate_ensemble_forecast_def Let_def f)
qed

lemma distinct_date_range: "distinct (date_range anchor s e g)"
  by (simp add: date_range_def)

lemma count_in_distinct:
  "distinct xs \<Longrightarrow> d \<in> set xs \<Longrightarrow> length (filter (\<lambda>x. x = d) xs) = 1"
proof (induction xs)
  case Nil
  then show ?case by simp
next
  case (Cons x xs)
  show ?case
  proof (cases "x = d")
    case True
    then have "d \<notin> set xs" using Cons.prems by simp
    then have "filter (\<lambda>x. x = d) xs = []" by (auto simp: filter_empty_conv)
    with True show ?thesis by simp
  next
    case False
    with Cons show ?thesis by simp
  qed
qed

lemma quantile_points_count:
  assumes "length mv = length di"
  shows "length (filter (\<lambda>p. fp_sku p = s \<and> fp_date p = d) (quantile_points sku di mv)) =
           (if sku = s then length (filter (\<lambda>x. x = d) di) else 0)"
proof -
  have "length (filter (\<lambda>p. fp_sku p = s \<and> fp_date p = d) (quantile_points sku di mv))
        = length (filter (\<lambda>z. sku = s \<and> fst z = d) (zip di mv))"
    by (simp add: quantile_points_def filter_map comp_def case_prod_beta)
  also have "\<dots> = (if sku = s then length (filter (\<lambda>z. fst z = d) (zip di mv)) else 0)"
    by simp
  also have "length (filter (\<lambda>z. fst z = d) (zip di mv))
             = length (filter (\<lambda>x. x = d) (map fst (zip di mv)))"
    by (simp add: filter_map comp_def)
  also have "map fst (zip di mv) = di" using assms by simp
  finally show ?thesis .
qed

lemma quantile_points_length:
  "length mv = length di \<Longrightarrow> length (quantile_points sku di mv) = length di"
  by (simp add: quantile_points_def)

lemma quantile_points_member:
  assumes "p \<in> set (quantile_points sku di mv)" and "\<forall>v \<in> set mv. 0 \<le> v"
  shows "fp_sku p = sku \<and> fp_date p \<in> set di \<and> 0 \<le> fp_mean p \<and> fp_q50 p = fp_mean p
         \<and> fp_q10 p = 0.8 * fp_mean p \<and> fp_q90 p = 1.2 * fp_mean p
         \<and> fp_q10 p \<le> fp_q50 p \<and> fp_q50 p \<le> fp_q90 p"
proof -
  from assms(1) obtain ts m where z: "(ts, m) \<in> set (zip di mv)"
    and p: "p = \<lparr>fp_sku = sku, fp_date = ts, fp_mean = m,
                 fp_q10 = m * 0.8, fp_q50 = m, fp_q90 = m * 1.2\<rparr>"
    by (auto simp: quantile_points_def)
  from z have "ts \<in> set di" "m \<in> set mv" by (auto dest: set_zip_leftD set_zip_rightD)
  with assms(2) have "ts \<in> set di" "0 \<le> m" by auto
  then show ?thesis by (simp add: p)
qed

lemma sum_single_match:
  "distinct skus \<Longrightarrow> s \<in> set skus \<Longrightarrow>
     sum_list (map (\<lambda>sku. if sku = s then (c::nat) else 0) skus) = c"
proof (induction skus)
  case Nil
  then show ?case by simp
next
  case (Cons a skus)
  show ?case
  proof (cases "a = s")
    case True
    then have "s \<notin> set skus" using Cons.prems by simp
    then have "sum_list (map (\<lambda>sku. if sku = s then c else 0) skus) = 0"
      by (induction skus) auto
    with True show ?thesis by simp
  next
    case False
    with Cons show ?thesis by simp
  qed
qed

lemma length_filter_concat:
  "length (filter P (concat xss)) = sum_list (map (\<lambda>xs. length (filter P xs)) xss)"
  by (induction xss) simp_all

text \<open>
  Claim C2, as the code has it. For every forecast request whose SKU list names no SKU
  twice, the orchestrator's output holds exactly one ForecastPoint per (sku, date) pair,
  for each requested SKU and each date of the request's date index, which at daily
  granularity is every date from start_date to end_date; in general the output holds
  one point per entry of the SKU list and date of the index. Every point has
  mean \<ge> 0, q50 = mean, q10 = 0.8 * mean and q90 = 1.2 * mean, hence q10 \<le> q50 \<le> q90.
\<close>

theorem one_point_per_sku_and_date:
  assumes "distinct (sku_list request)"
  shows "(let points = fst (generate_ensemble_forecast env request);
              dates = date_range (calendar env) (start_date request) (end_date request)
                        (granularity request)
          in (\<forall>sku \<in> set (sku_list request). \<forall>d \<in> set dates.
                 length (filter (\<lambda>p. fp_sku p = sku \<and> fp_date p = d) points) = 1)
             \<and> length points = length (sku_list request) * length dates
             \<and> (\<forall>p \<in> set points.
                   fp_sku p \<in> set (sku_list request) \<and> fp_date p \<in> set dates
                   \<and> 0 \<le> fp_mean p \<and> fp_q50 p = fp_mean p
                   \<and> fp_q10 p = 0.8 * fp_mean p \<and> fp_q90 p = 1.2 * fp_mean p
                   \<and> fp_q10 p \<le> fp_q50 p \<and> fp_q50 p \<le> fp_q90 p)
             \<and> (granularity request = day \<longrightarrow>
                   dates = [start_date request..end_date request]))"
proof -
  let ?di = "date_range (calendar env) (start_date request) (end_date request) (granularity request)"
  let ?mv = "\<lambda>sku. fst (sku_forecast env request ?di sku)"
  let ?pts = "concat (map (\<lambda>sku. quantile_points sku ?di (?mv sku)) (sku_list request))"
  have pts: "fst (generate_ensemble_forecast env request) = ?pts"
    by (simp add: ensemble_points Let_def)
  have shape: "\<And>sku. length (?mv sku) = length ?di \<and> (\<forall>v \<in> set (?mv sku). 0 \<le> v)"
  proof -
    fix sku
    obtain fc ch m where r: "sku_forecast env request ?di sku = (fc, ch, m)"
      by (cases "sku_forecast env request ?di sku")
    from sku_forecast_shape [OF r] r
    show "length (?mv sku) = length ?di \<and> (\<forall>v \<in> set (?mv sku). 0 \<le> v)" by simp
  qed
  have one: "\<forall>sku \<in> set (sku_list request). \<forall>d \<in> set ?di.
               length (filter (\<lambda>p. fp_sku p = sku \<and> fp_date p = d) ?pts) = 1"
  proof (intro ballI)
    fix s d assume s: "s \<in> set (sku_list request)" and d: "d \<in> set ?di"
    have c: "length (filter (\<lambda>x. x = d) ?di) = 1"
      using distinct_date_range d by (rule count_in_distinct)
    have "length (filter (\<lambda>p. fp_sku p = s \<and> fp_date p = d) ?pts)
          = sum_list (map (\<lambda>sku. length (filter (\<lambda>p. fp_sku p = s \<and> fp_date p = d)
                                             (quantile_points sku ?di (?mv sku))))
                        (sku_list request))"
      by (simp add: length_filter_concat comp_def)
    also have "\<dots> = sum_list (map (\<lambda>sku. if sku = s then 1 else 0) (sku_list request))"
    proof -
      have "\<And>sku. length (filter (\<lambda>p. fp_sku p = s \<and> fp_date p = d)
                            (quantile_points sku ?di (?mv sku))) = (if sku = s then 1 else 0)"
      proof -
        fix sku
        have l: "length (?mv sku) = length ?di" using shape by blast
        show "length (filter (\<lambda>p. fp_sku p = s \<and> fp_date p = d)
                            (quantile_points sku ?di (?mv sku))) = (if sku = s then 1 else 0)"
          unfolding quantile_points_count [OF l] c by (rule refl)
      qed
      then show ?thesis by (simp only:)
    qed
    also have "\<dots> = 1" using assms s by (rule sum_single_match)
    finally show "length (filter (\<lambda>p. fp_sku p = s \<and> fp_date p = d) ?pts) = 1" .
  qed
  have len: "length ?pts = length (sku_list request) * length ?di"
    using shape by (simp add: length_concat comp_def quantile_points_length sum_list_triv)
  have mem: "\<forall>p \<in> set ?pts.
                   fp_sku p \<in> set (sku_list request) \<and> fp_date p \<in> set ?di
                   \<and> 0 \<le> fp_mean p \<and> fp_q50 p = fp_mean p
                   \<and> fp_q10 p = 0.8 * fp_mean p \<and> fp_q90 p = 1.2 * fp_mean p
                   \<and> fp_q10 p \<le> fp_q50 p \<and> fp_q50 p \<le> fp_q90 p"
  proof
    fix p assume "p \<in> set ?pts"
    then obtain sku where sk: "sku \<in> set (sku_list request)"
      and p: "p \<in> set (quantile_points sku ?di (?mv sku))" by auto
    from shape have "\<forall>v \<in> set (?mv sku). 0 \<le> v" by blast
    from quantile_points_member [OF p this] sk
    show "fp_sku p \<in> set (sku_list request) \<and> fp_date p \<in> set ?di
                   \<and> 0 \<le> fp_mean p \<and> fp_q50 p = fp_mean p
                   \<and> fp_q10 p = 0.8 * fp_mean p \<and> fp_q90 p = 1.2 * fp_mean p
                   \<and> fp_q10 p \<le> fp_q50 p \<and> fp_q50 p \<le> fp_q90 p" by simp
  qed
  have dr: "granularity request = day \<longrightarrow> ?di = [start_date request..end_date request]"
    by (simp add: date_range_def)
  show ?thesis
    unfolding Let_def pts using one len mem dr by (intro conjI) assumption+
qed


lemma stub_100_one_day: "generate_stub_forecast 100 1 = [92]"
  by (simp add: generate_stub_forecast_def linspace_def Let_def)

lemma one_day_index:
  "date_range (calendar empty_env) (start_date (one_day_request skus))
     (end_date (one_day_request skus)) (granularity (one_day_request skus)) = [1]"
  by (simp add: date_range_def one_day_request_def upto.simps)

lemma empty_env_sku_forecast:
  "sku_forecast empty_env (one_day_request skus) [1] sku = ([92], ''stub'', [])"
  by (simp add: sku_forecast_def prepare_history_def empty_env_def one_day_request_def Let_def
      stub_100_one_day)

theorem one_point_per_sku_and_date_witness:
  "distinct [''A'', ''B'']
   \<and> length (filter (\<lambda>p. fp_sku p = ''B'' \<and> fp_date p = 1)
               (fst (generate_ensemble_forecast empty_env (one_day_request [''A'', ''B''])))) = 1
   \<and> length (fst (generate_ensemble_forecast empty_env (one_day_request [''A'', ''B'']))) = 2
   \<and> list_all (\<lambda>p. 0 \<le> fp_mean p \<and> fp_q50 p = fp_mean p \<and> fp_q10 p = 0.8 * fp_mean p
                    \<and> fp_q90 p = 1.2 * fp_mean p \<and> fp_q10 p \<le> fp_q50 p \<and> fp_q50 p \<le> fp_q90 p)
        (fst (generate_ensemble_forecast empty_env (one_day_request [''A'', ''B''])))"
proof -
  have d: "distinct (sku_list (one_day_request [''A'', ''B'']))"
    by (simp add: one_day_request_def)
  have sk: "sku_list (one_day_request [''A'', ''B'']) = [''A'', ''B'']"
    by (simp add: one_day_request_def)
  note t = one_point_per_sku_and_date [OF d, of empty_env, unfolded Let_def one_day_index sk]
  from t have a: "length (filter (\<lambda>p. fp_sku p = ''B'' \<and> fp_date p = 1)
               (fst (generate_ensemble_forecast empty_env (one_day_request [''A'', ''B''])))) = 1"
    by simp
  from t have b: "length (fst (generate_ensemble_forecast empty_env (one_day_request [''A'', ''B'']))) = 2"
    by simp
  from t have c: "list_all (\<lambda>p. 0 \<le> fp_mean p \<and> fp_q50 p = fp_mean p \<and> fp_q10 p = 0.8 * fp_mean p
                    \<and> fp_q90 p = 1.2 * fp_mean p \<and> fp_q10 p \<le> fp_q50 p \<and> fp_q50 p \<le> fp_q90 p)
        (fst (generate_ensemble_forecast empty_env (one_day_request [''A'', ''B''])))"
    unfolding list_all_iff by blast
  have e: "distinct [''A'', ''B'']" by simp
  from e a b c show ?thesis by (intro conjI) assumption+
qed

text \<open>
  The claim as first stated asks only for a non-empty SKU list and start_date \<le>
  end_date. A request that names SKU A twice gets two points for (A, day 1).
\<close>

theorem duplicate_sku_counterexample:
  "sku_list (one_day_request [''A'', ''A'']) \<noteq> []
   \<and> start_date (one_day_request [''A'', ''A'']) \<le> end_date (one_day_request [''A'', ''A''])
   \<and> fst (generate_ensemble_forecast empty_env (one_day_request [''A'', ''A''])) =
       [\<lparr>fp_sku = ''A'', fp_date = 1, fp_mean = 92, fp_q10 = 73.6, fp_q50 = 92, fp_q90 = 110.4\<rparr>,
        \<lparr>fp_sku = ''A'', fp_date = 1, fp_mean = 92, fp_q10 = 73.6, fp_q50 = 92, fp_q90 = 110.4\<rparr>]
   \<and> length (filter (\<lambda>p. fp_sku p = ''A'' \<and> fp_date p = 1)
               (fst (generate_ensemble_forecast empty_env (one_day_request [''A'', ''A''])))) = 2"
proof -
  have sk: "sku_list (one_day_request [''A'', ''A'']) = [''A'', ''A'']"
    "start_date (one_day_request [''A'', ''A'']) = 1" "end_date (one_day_request [''A'', ''A'']) = 1"
    by (simp_all add: one_day_request_def)
  have pts: "fst (generate_ensemble_forecast empty_env (one_day_request [''A'', ''A''])) =
       [\<lparr>fp_sku = ''A'', fp_date = 1, fp_mean = 92, fp_q10 = 73.6, fp_q50 = 92, fp_q90 = 110.4\<rparr>,
        \<lparr>fp_sku = ''A'', fp_date = 1, fp_mean = 92, fp_q10 = 73.6, fp_q50 = 92, fp_q90 = 110.4\<rparr>]"
    unfolding ensemble_points Let_def one_day_index
    by (simp add: sk empty_env_sku_forecast quantile_points_def)
  show ?thesis unfolding pts sk by simp
qed

end
